theory Spec2Isabelle
  imports Main "HOL-Library.Monad_Syntax" "HOL-Library.AList"
begin

section \<open>JavaScript strings\<close>

text \<open>
  The analyzer is the route handler \<^verbatim>\<open>app/api/analyze/route.tsx\<close> in its current
  version: the detectors, the aggregator \<^verbatim>\<open>detectTechStack\<close> and the handler \<^verbatim>\<open>POST\<close>.
  What the handler takes from libraries (the HTML parser and its selector engine, the
  URL parser, the HTTP client) is a parameter of the model; a rejected promise or a
  thrown exception is the value \<open>None\<close>. The awaited detectors are evaluated in the
  order of the source; with frozen outcomes of the fetches the interleaving of the
  concurrent fetches has no effect on any result.

  Strings are modelled as HOL strings: a character is one code unit below 256 (ASCII
  and Latin-1), which is what Node delivers for header values and what every pattern
  of the analyzer is written in.
\<close>

text \<open>
  Character tests read the bits of the code unit (\<open>b0\<close> is the lowest). The five low
  bits of a letter hold its position 1..26 in the alphabet; bit 5 is the case bit, both
  in ASCII (\<open>A\<close> is 0x41, \<open>a\<close> is 0x61) and in Latin-1 (0xC0..0xDE without 0xD7 are
  the capitals of 0xE0..0xFE).
\<close>

definition letterBits :: "bool \<Rightarrow> bool \<Rightarrow> bool \<Rightarrow> bool \<Rightarrow> bool \<Rightarrow> bool" where
  "letterBits b0 b1 b2 b3 b4 =
     ((b0 \<or> b1 \<or> b2 \<or> b3 \<or> b4) \<and> \<not> (b4 \<and> b3 \<and> (b2 \<or> (b1 \<and> b0))))"

definition latinCapitalBits :: "bool \<Rightarrow> bool \<Rightarrow> bool \<Rightarrow> bool \<Rightarrow> bool \<Rightarrow> bool" where
  "latinCapitalBits b0 b1 b2 b3 b4 =
     (\<not> (b0 \<and> b1 \<and> b2 \<and> b3 \<and> b4) \<and> \<not> (b0 \<and> b1 \<and> b2 \<and> \<not> b3 \<and> b4))"

fun toLowerChar :: "char \<Rightarrow> char" where
  "toLowerChar (Char b0 b1 b2 b3 b4 b5 b6 b7) =
     (if b6 \<and> \<not> b5 \<and>
         ((\<not> b7 \<and> letterBits b0 b1 b2 b3 b4) \<or> (b7 \<and> latinCapitalBits b0 b1 b2 b3 b4))
      then Char b0 b1 b2 b3 b4 True b6 b7
      else Char b0 b1 b2 b3 b4 b5 b6 b7)"

definition toLowerCase :: "string \<Rightarrow> string" where
  "toLowerCase s = map toLowerChar s"

fun startsWith :: "string \<Rightarrow> string \<Rightarrow> bool" where
  "startsWith s [] = True"
| "startsWith [] (p # ps) = False"
| "startsWith (c # cs) (p # ps) = (c = p \<and> startsWith cs ps)"

text \<open>\<^verbatim>\<open>s.includes(needle)\<close>: the needle occurs at some position of \<open>s\<close>.\<close>

fun str_includes :: "string \<Rightarrow> string \<Rightarrow> bool" where
  "str_includes [] needle = (needle = [])"
| "str_includes (c # cs) needle = (startsWith (c # cs) needle \<or> str_includes cs needle)"

definition isSpaceChar :: "char \<Rightarrow> bool" where
  "isSpaceChar c = (c \<in> {CHR 0x09, CHR 0x0A, CHR 0x0B, CHR 0x0C, CHR 0x0D, CHR 0x20, CHR 0xA0})"

definition trim :: "string \<Rightarrow> string" where
  "trim s = rev (dropWhile isSpaceChar (rev (dropWhile isSpaceChar s)))"

text \<open>Truthiness of a string, and of an optional string (\<^verbatim>\<open>undefined\<close> is \<open>None\<close>).\<close>

definition truthy :: "string option \<Rightarrow> bool" where
  "truthy v = (case v of None \<Rightarrow> False | Some s \<Rightarrow> s \<noteq> [])"

text \<open>\<^verbatim>\<open>v || ''\<close> for an optional string.\<close>

definition orEmpty :: "string option \<Rightarrow> string" where
  "orEmpty v = (case v of None \<Rightarrow> [] | Some s \<Rightarrow> s)"

fun join :: "string \<Rightarrow> string list \<Rightarrow> string" where
  "join sep [] = []"
| "join sep [x] = x"
| "join sep (x # y # ys) = x @ sep @ join sep (y # ys)"

section \<open>Regular expressions\<close>

text \<open>
  The patterns of the analyzer use literals, alternation, optional groups, the classes
  \<^verbatim>\<open>[...]\<close>, \<^verbatim>\<open>[^...]\<close>, \<^verbatim>\<open>.\<close>, \<^verbatim>\<open>\d\<close>, \<^verbatim>\<open>\w\<close>, \<^verbatim>\<open>\s\<close>, the quantifiers
  \<^verbatim>\<open>?\<close>, \<^verbatim>\<open>*\<close>, \<^verbatim>\<open>+\<close> and the assertion \<^verbatim>\<open>\b\<close>. \<^verbatim>\<open>rx.test(s)\<close> asks whether the
  pattern matches somewhere in \<open>s\<close>. A matcher state is the character before the
  current position (for \<^verbatim>\<open>\b\<close>) and the rest of the subject.
\<close>

datatype rx =
    Eps
  | Chr char
  | Cls "char list"
  | NCls "char list"
  | Dot
  | Digit
  | WordCh
  | Space
  | Bnd
  | Seq rx rx
  | Alt rx rx
  | Star rx

type_synonym mstate = "char option \<times> string"

text \<open>
  Under the \<^verbatim>\<open>i\<close> flag two characters match when their canonical forms agree. Every
  pattern character of the analyzer is ASCII, and the canonical form never maps a
  character above 127 to one below, so only ASCII letters are folded.
\<close>

fun canon :: "char \<Rightarrow> char" where
  "canon (Char b0 b1 b2 b3 b4 b5 b6 b7) =
     (if \<not> b7 \<and> b6 \<and> b5 \<and> letterBits b0 b1 b2 b3 b4
      then Char b0 b1 b2 b3 b4 False b6 b7
      else Char b0 b1 b2 b3 b4 b5 b6 b7)"

definition chrEq :: "bool \<Rightarrow> char \<Rightarrow> char \<Rightarrow> bool" where
  "chrEq ci p c = (if ci then canon p = canon c else p = c)"

definition isDigitChar :: "char \<Rightarrow> bool" where
  "isDigitChar c = (c \<in> set ''0123456789'')"

definition isWordChar :: "char \<Rightarrow> bool" where
  "isWordChar c =
     (c \<in> set ''abcdefghijklmnopqrstuvwxyzABCDEFGHIJKLMNOPQRSTUVWXYZ0123456789_'')"

definition isLineTerminator :: "char \<Rightarrow> bool" where
  "isLineTerminator c = (c \<in> {CHR 0x0A, CHR 0x0D})"

definition oneChar :: "(char \<Rightarrow> bool) \<Rightarrow> mstate \<Rightarrow> mstate list" where
  "oneChar p st = (case snd st of [] \<Rightarrow> [] | c # cs \<Rightarrow> if p c then [(Some c, cs)] else [])"

definition atBoundary :: "mstate \<Rightarrow> bool" where
  "atBoundary st =
     ((case fst st of None \<Rightarrow> False | Some c \<Rightarrow> isWordChar c)
      \<noteq> (case snd st of [] \<Rightarrow> False | c # cs \<Rightarrow> isWordChar c))"

text \<open>
  Iteration of a quantified group: each round must consume a character (an empty round
  is rejected, as the language's empty check does), so the length of the rest bounds
  the number of rounds.
\<close>

primrec iter :: "nat \<Rightarrow> (mstate \<Rightarrow> mstate list) \<Rightarrow> mstate \<Rightarrow> mstate list" where
  "iter 0 f = (\<lambda>st. [st])"
| "iter (Suc n) f =
     (\<lambda>st. st # concat (map (iter n f) (filter (\<lambda>st'. length (snd st') < length (snd st)) (f st))))"

primrec rmatch :: "rx \<Rightarrow> bool \<Rightarrow> mstate \<Rightarrow> mstate list" where
  "rmatch Eps ci = (\<lambda>st. [st])"
| "rmatch (Chr p) ci = oneChar (chrEq ci p)"
| "rmatch (Cls ps) ci = oneChar (\<lambda>c. \<exists>p \<in> set ps. chrEq ci p c)"
| "rmatch (NCls ps) ci = oneChar (\<lambda>c. \<not> (\<exists>p \<in> set ps. chrEq ci p c))"
| "rmatch Dot ci = oneChar (\<lambda>c. \<not> isLineTerminator c)"
| "rmatch Digit ci = oneChar isDigitChar"
| "rmatch WordCh ci = oneChar isWordChar"
| "rmatch Space ci = oneChar isSpaceChar"
| "rmatch Bnd ci = (\<lambda>st. if atBoundary st then [st] else [])"
| "rmatch (Seq a b) ci = (\<lambda>st. concat (map (rmatch b ci) (rmatch a ci st)))"
| "rmatch (Alt a b) ci = (\<lambda>st. rmatch a ci st @ rmatch b ci st)"
| "rmatch (Star a) ci = (\<lambda>st. iter (length (snd st)) (rmatch a ci) st)"

fun search :: "rx \<Rightarrow> bool \<Rightarrow> char option \<Rightarrow> string \<Rightarrow> bool" where
  "search r ci prev [] = (rmatch r ci (prev, []) \<noteq> [])"
| "search r ci prev (c # cs) = (rmatch r ci (prev, c # cs) \<noteq> [] \<or> search r ci (Some c) cs)"

text \<open>\<^verbatim>\<open>/r/.test(s)\<close> and \<^verbatim>\<open>/r/i.test(s)\<close>.\<close>

definition test :: "rx \<Rightarrow> string \<Rightarrow> bool" where
  "test r s = search r False None s"

definition test_i :: "rx \<Rightarrow> string \<Rightarrow> bool" where
  "test_i r s = search r True None s"

text \<open>Pattern syntax: a literal, a list of alternatives, \<^verbatim>\<open>r?\<close>, \<^verbatim>\<open>r+\<close>, a sequence.\<close>

definition lit :: "string \<Rightarrow> rx" where
  "lit s = foldr (\<lambda>c r. Seq (Chr c) r) s Eps"

fun alts :: "rx list \<Rightarrow> rx" where
  "alts [] = Cls []"
| "alts [r] = r"
| "alts (r # r' # rs) = Alt r (alts (r' # rs))"

definition seqs :: "rx list \<Rightarrow> rx" where
  "seqs rs = foldr Seq rs Eps"

definition opt :: "rx \<Rightarrow> rx" where
  "opt r = Alt r Eps"

definition plus :: "rx \<Rightarrow> rx" where
  "plus r = Seq r (Star r)"


section \<open>Data model\<close>

text \<open>
  \<^verbatim>\<open>interface TechStack\<close>: every field is optional. The property \<^verbatim>\<open>isWordPress\<close> is the
  field \<open>isWordPressFlag\<close> (the name \<open>isWordPress\<close> is the detector's). \<open>fieldOrder\<close> lists the property
  names in the order in which they were first assigned, which is the order in which
  the JSON response prints them (a property assigned \<^verbatim>\<open>undefined\<close> keeps its place
  and is not printed).
\<close>

record TechStack =
  cms :: "string option"
  javascriptFrameworks :: "string list option"
  cssFrameworks :: "string list option"
  server :: "string option"
  webServer :: "string option"
  analytics :: "string list option"
  buildTools :: "string list option"
  compression :: "string list option"
  isWordPressFlag :: "bool option"
  cdn :: "string list option"
  hosting :: "string option"
  payments :: "string list option"
  marketing :: "string list option"
  monitoring :: "string list option"
  fieldOrder :: "string list"

text \<open>\<^verbatim>\<open>const tech: TechStack = {}\<close>\<close>

definition emptyTech :: TechStack where
  "emptyTech = \<lparr> cms = None, javascriptFrameworks = None, cssFrameworks = None, server = None,
     webServer = None, analytics = None, buildTools = None, compression = None,
     isWordPressFlag = None, cdn = None, hosting = None, payments = None, marketing = None,
     monitoring = None, fieldOrder = [] \<rparr>"

text \<open>\<^verbatim>\<open>set.add(x)\<close> on a list in insertion order, and the bookkeeping of an assignment
  \<^verbatim>\<open>tech.key = ...\<close>.\<close>

definition setAdd :: "string \<Rightarrow> string list \<Rightarrow> string list" where
  "setAdd x xs = (if x \<in> set xs then xs else xs @ [x])"

definition assigned :: "string \<Rightarrow> TechStack \<Rightarrow> TechStack" where
  "assigned key tech = tech\<lparr> fieldOrder := setAdd key (fieldOrder tech) \<rparr>"

text \<open>
  JSON values, as \<^verbatim>\<open>req.json()\<close> and the HTTP client deliver them. Numbers play no role
  in the analyzer beyond their truthiness.
\<close>

datatype json = JNull | JBool bool | JNum int | JStr string | JArr "json list"
  | JObj "(string \<times> json) list"

text \<open>A header value of a response is a string or a list of strings.\<close>

datatype hval = HStr string | HArr "string list"

record response =
  status :: nat
  resp_headers :: "(string \<times> hval) list"
  resp_data :: json

datatype failure = NetworkError | Timeout | Oversize

datatype http_result = Failed failure | Responded response

text \<open>
  An element of the parsed document, as the detectors read it: its tag name, its
  attributes (\<^verbatim>\<open>$(el).attr(name)\<close>) and its inner markup (\<^verbatim>\<open>$(el).html()\<close>).
\<close>

record element =
  el_tag :: string
  el_attrs :: "(string \<times> string) list"
  el_html :: string

definition attr :: "element \<Rightarrow> string \<Rightarrow> string option" where
  "attr el name = map_of (el_attrs el) name"

text \<open>
  The Markup Index \<^verbatim>\<open>$\<close> built by \<^verbatim>\<open>cheerio.load(html)\<close>: the serialised document
  \<^verbatim>\<open>$.html()\<close> and the selector lookup \<^verbatim>\<open>$(selector).toArray()\<close>. The parser and the
  selector engine are a library outside the repository; the detectors are verified for
  every such index.
\<close>

record cheerio =
  root_html :: string
  query :: "string \<Rightarrow> element list"

record url =
  href :: string
  host :: string

text \<open>
  What the analyzer takes from its platform: the HTML parser, the URL parser
  (\<^verbatim>\<open>new URL(input)\<close> and \<^verbatim>\<open>new URL(input, base)\<close>; \<open>None\<close> when it throws), the
  outcome of a GET by the shared client \<^verbatim>\<open>http\<close> (timeout 6 s, body cap 500 kB) for a
  page or a script and for the discovery probe (which asks for JSON and follows at most
  two redirects), and the conversions \<^verbatim>\<open>JSON.stringify\<close> and \<^verbatim>\<open>String\<close> of a value that
  is not a string. The outcomes are frozen: one outcome per address.
\<close>

record world =
  cheerio_load :: "string \<Rightarrow> cheerio"
  newURL :: "string \<Rightarrow> string option \<Rightarrow> url option"
  transport :: "string \<Rightarrow> http_result"
  transport_probe :: "string \<Rightarrow> http_result"
  JSON_stringify :: "json \<Rightarrow> string"
  String_of :: "json \<Rightarrow> string"

section \<open>Server header, CDN and hosting\<close>

text \<open>\<^verbatim>\<open>serverHeaderAliases\<close>: every pattern carries the \<^verbatim>\<open>i\<close> flag; the first match wins.\<close>

definition googleFrontendRx :: rx where
  "googleFrontendRx =
     alts [lit ''gws'', lit ''ESF'', lit ''google frontend'', lit ''google front end'',
           seqs [lit ''server:'', Star Space, lit ''ESF'']]"

definition serverHeaderAliases :: "(rx \<times> string) list" where
  "serverHeaderAliases =
    [(googleFrontendRx, ''Google Frontend''),
     (lit ''apache'', ''Apache HTTP Server''),
     (lit ''nginx'', ''NGINX''),
     (lit ''cloudflare'', ''Cloudflare''),
     (lit ''cloudfront'', ''Amazon CloudFront''),
     (alts [lit ''iis'', lit ''microsoft-iis''], ''Microsoft IIS''),
     (lit ''vercel'', ''Vercel''),
     (alts [lit ''awselb'', lit ''elastic load balancer''], ''AWS Elastic Load Balancer''),
     (lit ''gunicorn'', ''Gunicorn''),
     (lit ''caddy'', ''Caddy''),
     (lit ''lighttpd'', ''lighttpd''),
     (lit ''fastly'', ''Fastly (edge)''),
     (lit ''akamai'', ''Akamai (edge)'')]"

fun firstAlias :: "(rx \<times> string) list \<Rightarrow> string \<Rightarrow> string option" where
  "firstAlias [] raw = None"
| "firstAlias ((r, label) # rest) raw = (if test_i r raw then Some label else firstAlias rest raw)"

definition mapServerHeader :: "string option \<Rightarrow> string option" where
  "mapServerHeader raw =
     (case raw of
        None \<Rightarrow> None
      | Some r \<Rightarrow>
          if r = [] then None
          else (case firstAlias serverHeaderAliases r of Some label \<Rightarrow> Some label | None \<Rightarrow> Some r))"

text \<open>\<^verbatim>\<open>x?.toLowerCase().includes(needle)\<close> for an optional string.\<close>

definition lowerIncludes :: "string option \<Rightarrow> string \<Rightarrow> bool" where
  "lowerIncludes x needle =
     (case x of None \<Rightarrow> False | Some s \<Rightarrow> str_includes (toLowerCase s) needle)"

text \<open>
  Headers are the own properties of an object, in order. \<^verbatim>\<open>headers[name]\<close> is
  \<open>map_of headers name\<close>; the copy \<^verbatim>\<open>h\<close> with lower-cased names is built entry by entry,
  a later entry overwriting an earlier one of the same lower-cased name.
\<close>

definition lowerKeys :: "(string \<times> string) list \<Rightarrow> (string \<times> string) list" where
  "lowerKeys headers = fold (\<lambda>(k, v) h. AList.update (toLowerCase k) v h) headers []"

definition inferCDN :: "(string \<times> string) list \<Rightarrow> string list" where
  "inferCDN headers =
    (let h = map_of (lowerKeys headers);
         srv = orEmpty (h ''server'');
         out0 = [];
         out1 = (if truthy (h ''cf-ray'') \<or> truthy (h ''cf-cache-status'')
                    \<or> test_i (lit ''cloudflare'') srv
                 then setAdd ''Cloudflare'' out0 else out0);
         out2 = (if truthy (h ''x-amz-cf-pop'') \<or> lowerIncludes (h ''via'') ''cloudfront''
                 then setAdd ''Amazon CloudFront'' out1 else out1);
         out3 = (if lowerIncludes (h ''x-served-by'') ''fastly'' \<or> test_i (lit ''fastly'') srv
                 then setAdd ''Fastly'' out2 else out2);
         out4 = (if test_i (lit ''akamai'') srv \<or> truthy (h ''x-akamai-transformed'')
                    \<or> truthy (h ''x-akamai-staging'')
                 then setAdd ''Akamai'' out3 else out3);
         out5 = (if lowerIncludes (h ''server'') ''vercel'' \<or> truthy (h ''x-vercel-id'')
                 then setAdd ''Vercel Edge'' out4 else out4);
         out6 = (if lowerIncludes (h ''x-cache'') ''cache'' \<and> truthy (h ''x-azure-ref'')
                 then setAdd ''Azure CDN/Front Door'' out5 else out5)
     in out6)"

definition inferHosting :: "(string \<times> string) list \<Rightarrow> string option" where
  "inferHosting headers =
    (let h = map_of (lowerKeys headers);
         srv = orEmpty (h ''server'')
     in if truthy (h ''x-vercel-id'') \<or> test_i (lit ''vercel'') srv then Some ''Vercel''
        else if truthy (h ''x-nf-request-id'') \<or> test_i (lit ''netlify'') srv then Some ''Netlify''
        else if truthy (h ''x-github-request-id'') \<or> test_i (lit ''github.com'') srv
          then Some ''GitHub Pages''
        else if truthy (h ''fly-request-id'') \<or> test_i (lit ''fly.io'') srv then Some ''Fly.io''
        else if truthy (h ''x-render-origin-server'') \<or> test_i (lit ''render'') srv
          then Some ''Render''
        else if lowerIncludes (h ''server'') ''azure'' then Some ''Azure''
        else if lowerIncludes (h ''server'') ''google'' then Some ''Google Cloud''
        else None)"

text \<open>\<^verbatim>\<open>dedupeEdgeVsOrigin\<close> and its local \<^verbatim>\<open>ensureCdn\<close>.\<close>

definition ensureCdn :: "string \<Rightarrow> TechStack \<Rightarrow> TechStack" where
  "ensureCdn name tech =
    (let list = (case cdn tech of None \<Rightarrow> [] | Some l \<Rightarrow> l);
         list' = (if \<not> list_ex (\<lambda>c. toLowerCase c = toLowerCase name) list
                  then list @ [name] else list)
     in assigned ''cdn'' (tech\<lparr> cdn := Some list' \<rparr>))"

definition clearServer :: "TechStack \<Rightarrow> TechStack" where
  "clearServer tech = assigned ''server'' (tech\<lparr> server := None \<rparr>)"

definition dedupeEdgeVsOrigin :: "TechStack \<Rightarrow> TechStack" where
  "dedupeEdgeVsOrigin tech =
    (if \<not> truthy (server tech) then tech
     else
       let s = toLowerCase (orEmpty (server tech))
       in if str_includes s ''cloudflare'' then clearServer (ensureCdn ''Cloudflare'' tech)
          else if str_includes s ''fastly'' then clearServer (ensureCdn ''Fastly'' tech)
          else if str_includes s ''akamai'' then clearServer (ensureCdn ''Akamai'' tech)
          else if str_includes s ''cloudfront''
            then clearServer (ensureCdn ''Amazon CloudFront'' tech)
          else if str_includes s ''google frontend'' \<or> str_includes s ''gws''
                  \<or> str_includes s ''esf''
            then clearServer (ensureCdn ''Google Frontend'' tech)
          else if str_includes s ''vercel''
            then clearServer
                   (if \<not> list_ex (test_i (lit ''vercel''))
                           (case cdn tech of None \<Rightarrow> [] | Some l \<Rightarrow> l)
                    then ensureCdn ''Vercel Edge'' tech else tech)
          else tech)"


section \<open>Script selection and script fetches\<close>

definition MAX_SCRIPT_REQUESTS :: nat where
  "MAX_SCRIPT_REQUESTS = 12"

record candidate =
  c_url :: string
  priority :: nat
  sameOrigin :: bool
  isModule :: bool

text \<open>
  The body of the \<^verbatim>\<open>map\<close> callback of \<^verbatim>\<open>pickTopScripts\<close>: \<open>None\<close> is its \<^verbatim>\<open>null\<close>, for
  an empty address and for an address the URL parser rejects.
\<close>

definition scriptCandidate :: "world \<Rightarrow> string \<Rightarrow> string \<Rightarrow> element \<Rightarrow> candidate option" where
  "scriptCandidate w baseUrl baseHost el =
    (let isLink = (el_tag el = ''link'');
         srcAttr = (if isLink then ''href'' else ''src'');
         raw = trim (orEmpty (attr el srcAttr))
     in if raw = [] then None
        else
          (case newURL w raw (Some baseUrl) of
             None \<Rightarrow> None
           | Some resolved \<Rightarrow>
               (case newURL w (href resolved) None of
                  None \<Rightarrow> None
                | Some u \<Rightarrow>
                    let so = (host u = baseHost);
                        im = (toLowerCase (orEmpty (attr el ''type'')) = ''module'');
                        pr = (if im then 0 else 1) + (if so then 0 else 1)
                    in Some \<lparr> c_url = href resolved, priority = pr, sameOrigin = so,
                               isModule = im \<rparr>)))"

text \<open>
  \<^verbatim>\<open>candidates\<close>: the elements with a script address, in document order. The result is
  \<open>None\<close> when \<^verbatim>\<open>new URL(baseUrl)\<close> throws (it stands outside the \<^verbatim>\<open>try\<close>).
\<close>

definition scriptCandidates :: "world \<Rightarrow> cheerio \<Rightarrow> string \<Rightarrow> candidate list option" where
  \<open>scriptCandidates w doc baseUrl =
    (case newURL w baseUrl None of
       None \<Rightarrow> None
     | Some b \<Rightarrow>
         let baseHost = host b;
             nodes = query doc ''script[src],link[rel="preload"][as="script"][href]''
         in Some (List.map_filter (scriptCandidate w baseUrl baseHost) nodes))\<close>

text \<open>\<^verbatim>\<open>candidates.sort((a, b) => a.priority - b.priority)\<close> is a stable sort.\<close>

definition pickTopScripts :: "world \<Rightarrow> cheerio \<Rightarrow> string \<Rightarrow> string list option" where
  "pickTopScripts w doc baseUrl =
    (case scriptCandidates w doc baseUrl of
       None \<Rightarrow> None
     | Some candidates \<Rightarrow>
         Some (map c_url (take MAX_SCRIPT_REQUESTS (sort_key priority candidates))))"

text \<open>
  \<^verbatim>\<open>http.get(url)\<close> with the client's default status check: the promise rejects
  (\<open>None\<close>) on a transport failure and on a status outside 200..299.
\<close>

definition http_get :: "world \<Rightarrow> string \<Rightarrow> response option" where
  "http_get w u =
    (case transport w u of
       Failed f \<Rightarrow> None
     | Responded r \<Rightarrow> if 200 \<le> status r \<and> status r < 300 then Some r else None)"

text \<open>\<^verbatim>\<open>fetchText\<close>: \<open>None\<close> is its \<^verbatim>\<open>null\<close>.\<close>

definition fetchText :: "world \<Rightarrow> string \<Rightarrow> string option" where
  "fetchText w u =
    (case http_get w u of
       None \<Rightarrow> None
     | Some r \<Rightarrow>
         (case resp_data r of JStr s \<Rightarrow> Some s | d \<Rightarrow> Some (JSON_stringify w d)))"

text \<open>
  \<^verbatim>\<open>containsInScripts\<close>: the fetches run through the concurrency limiter \<^verbatim>\<open>limit\<close>; with
  frozen outcomes the list of results is the list of the per-script results in the
  order of \<^verbatim>\<open>scriptUrls\<close>. \<open>None\<close> when \<^verbatim>\<open>pickTopScripts\<close> throws.
\<close>

definition scriptHit :: "world \<Rightarrow> (string \<Rightarrow> bool) \<Rightarrow> string \<Rightarrow> bool" where
  "scriptHit w matcher u =
    (case fetchText w u of None \<Rightarrow> False | Some text \<Rightarrow> if text \<noteq> [] then matcher text else False)"

definition containsInScripts ::
  "world \<Rightarrow> cheerio \<Rightarrow> string \<Rightarrow> (string \<Rightarrow> bool) \<Rightarrow> bool option" where
  "containsInScripts w doc baseUrl matcher = do {
     scriptUrls \<leftarrow> pickTopScripts w doc baseUrl;
     let results = map (scriptHit w matcher) scriptUrls;
     Some (list_ex (\<lambda>b. b) results)
   }"

section \<open>Detectors\<close>

text \<open>\<^verbatim>\<open>$(selector).length\<close>, the inline scripts whose content passes a test, and \<^verbatim>\<open>x ? 1 : 0\<close>.\<close>

definition count :: "cheerio \<Rightarrow> string \<Rightarrow> nat" where
  "count doc selector = length (query doc selector)"

definition inlineScripts :: "cheerio \<Rightarrow> (string \<Rightarrow> bool) \<Rightarrow> element list" where
  "inlineScripts doc p = filter (\<lambda>el. p (el_html el)) (query doc ''script'')"

definition b2n :: "bool \<Rightarrow> nat" where
  "b2n b = (if b then 1 else 0)"

subsection \<open>CMS\<close>

definition dq :: rx where "dq = Cls [CHR 0x22, CHR 0x27]"

definition wordPressSignals :: "rx list" where
  "wordPressSignals =
    [lit ''/wp-content/'',
     lit ''/wp-includes/'',
     lit ''/wp-admin/'',
     seqs [lit ''wp-embed'', opt (lit ''.min''), lit ''.js''],
     seqs [lit ''wp-emoji-release'', opt (lit ''.min''), lit ''.js''],
     lit ''wp-blog-header.php'',
     seqs [lit ''<meta'', plus (NCls ''>''), lit ''name='', dq, lit ''generator'', dq,
           plus (NCls ''>''), lit ''content='', dq, Star (NCls [CHR 0x22, CHR 0x27]),
           lit ''wordpress''],
     seqs [lit ''rel='', dq, lit ''https://api.w.org/'', dq]]"

text \<open>The number of patterns (all with the \<^verbatim>\<open>i\<close> flag) that match the text.\<close>

definition score :: "rx list \<Rightarrow> string \<Rightarrow> nat" where
  "score signals text = length (filter (\<lambda>r. test_i r text) signals)"

definition isWordPress :: "cheerio \<Rightarrow> bool" where
  "isWordPress doc = (score wordPressSignals (root_html doc) \<ge> 2)"

definition hvalString :: "hval \<Rightarrow> string" where
  "hvalString v = (case v of HStr s \<Rightarrow> s | HArr xs \<Rightarrow> join '','' xs)"

definition getProp :: "json \<Rightarrow> string \<Rightarrow> json option" where
  "getProp v name = (case v of JObj kvs \<Rightarrow> map_of kvs name | _ \<Rightarrow> None)"

definition jsTruthy :: "json \<Rightarrow> bool" where
  "jsTruthy v =
    (case v of JNull \<Rightarrow> False | JBool b \<Rightarrow> b | JNum n \<Rightarrow> n \<noteq> 0 | JStr s \<Rightarrow> s \<noteq> []
     | JArr xs \<Rightarrow> True | JObj kvs \<Rightarrow> True)"

definition isObject :: "json \<Rightarrow> bool" where
  "isObject v = (case v of JArr xs \<Rightarrow> True | JObj kvs \<Rightarrow> True | JNull \<Rightarrow> True | _ \<Rightarrow> False)"

text \<open>\<^verbatim>\<open>isWordPressViaAPI\<close>: every failure inside is caught and gives \<^verbatim>\<open>false\<close>.\<close>

definition isWordPressViaAPI :: "world \<Rightarrow> string \<Rightarrow> bool" where
  "isWordPressViaAPI w baseUrl =
    (case newURL w ''/wp-json'' (Some baseUrl) of
       None \<Rightarrow> False
     | Some u \<Rightarrow>
         (case transport_probe w (href u) of
            Failed f \<Rightarrow> False
          | Responded res \<Rightarrow>
              if status res < 200 \<or> status res \<ge> 300 then False
              else
                let ct = toLowerCase
                          (case map_of (resp_headers res) ''content-type'' of
                             None \<Rightarrow> [] | Some v \<Rightarrow> hvalString v)
                in if \<not> str_includes ct ''application/json'' then False
                   else
                     let data = resp_data res
                     in if \<not> jsTruthy data \<or> \<not> isObject data then False
                        else
                          let hasNamespaces =
                                (case getProp data ''namespaces'' of Some (JArr xs) \<Rightarrow> True | _ \<Rightarrow> False);
                              hasRoutes =
                                (case getProp data ''routes'' of
                                   Some (JObj kvs) \<Rightarrow> kvs \<noteq> []
                                 | Some (JArr xs) \<Rightarrow> xs \<noteq> []
                                 | _ \<Rightarrow> False);
                              hasWpHeader =
                                list_ex (\<lambda>h. startsWith (toLowerCase h) ''x-wp-'')
                                  (map fst (resp_headers res))
                          in (hasNamespaces \<and> hasRoutes) \<or> hasWpHeader))"

definition drupalPatterns :: "rx list" where
  "drupalPatterns =
    [lit ''drupal.js'',
     seqs [lit ''sites/'', alts [lit ''default'', lit ''all''], lit ''/''],
     alts [lit ''drupal_settings'', lit ''drupalSettings'']]"

definition isDrupal :: "cheerio \<Rightarrow> bool" where
  "isDrupal doc = (score drupalPatterns (toLowerCase (root_html doc)) \<ge> 2)"

definition joomlaPatterns :: "rx list" where
  "joomlaPatterns = [lit ''joomla'', lit ''/components/com_'', lit ''/media/system/js/'']"

definition isJoomla :: "cheerio \<Rightarrow> bool" where
  "isJoomla doc = (score joomlaPatterns (toLowerCase (root_html doc)) \<ge> 2)"

definition shopifySignals :: "rx list" where
  "shopifySignals =
    [lit ''cdn.shopify.com'', lit ''shopifycloud'', lit ''data-shopify'', lit ''window.Shopify'',
     lit ''shopify.assets'']"

definition isShopify :: "cheerio \<Rightarrow> bool" where
  "isShopify doc = (score shopifySignals (root_html doc) \<ge> 2)"

definition squarespacePatterns :: "rx list" where
  "squarespacePatterns = [lit ''static.squarespace.com'', lit ''squarespace.analytics'']"

definition isSquarespace :: "cheerio \<Rightarrow> bool" where
  "isSquarespace doc = (score squarespacePatterns (toLowerCase (root_html doc)) \<ge> 1)"

definition wixPatterns :: "rx list" where
  "wixPatterns =
    [lit ''static.wixstatic.com'', alts [lit ''wix-code'', lit ''wixsite''], lit ''wix.apps'']"

definition isWix :: "cheerio \<Rightarrow> bool" where
  "isWix doc = (score wixPatterns (toLowerCase (root_html doc)) \<ge> 2)"

subsection \<open>Analytics, marketing, monitoring, payments\<close>

text \<open>
  The pattern \<^verbatim>\<open>ga\((['"])create\1\<close> (a quote, and the same quote again) is written as
  the alternation of its two instances.
\<close>

definition gaCall :: "string \<Rightarrow> rx" where
  "gaCall name =
     alts [lit (''ga('' @ [CHR 0x27] @ name @ [CHR 0x27]),
           lit (''ga('' @ [CHR 0x22] @ name @ [CHR 0x22])]"

definition containsGoogleAnalytics :: "world \<Rightarrow> cheerio \<Rightarrow> string \<Rightarrow> bool option" where
  \<open>containsGoogleAnalytics w doc baseUrl = do {
     let gaScript = query doc ''script[src*="google-analytics.com/analytics.js"], script[src*="google-analytics.com/ga.js"], script[src*="googletagmanager.com/gtag/js"]'';
     let hasGAScript = (length gaScript > 0);
     let inline = (length (inlineScripts doc (\<lambda>c.
           let ua = (test (gaCall ''create'') c \<and> test (gaCall ''send'') c);
               gtag = (test (lit ''gtag('') c \<and> test (lit ''config'') c
                       \<and> test (alts [lit ''UA-'', lit ''G-'']) c)
           in ua \<or> gtag)) > 0);
     inScripts \<leftarrow> containsInScripts w doc baseUrl (\<lambda>t. test (alts [lit ''gtag('', lit ''ga(''])  t);
     Some (hasGAScript \<or> inline \<or> inScripts)
   }\<close>

definition containsGoogleTagManager :: "world \<Rightarrow> cheerio \<Rightarrow> string \<Rightarrow> bool option" where
  \<open>containsGoogleTagManager w doc baseUrl = do {
     let gtmScript = query doc ''script[src*="googletagmanager.com/gtm.js"]'';
     let has = (length gtmScript > 0
                \<or> count doc ''noscript iframe[src*="googletagmanager.com/ns.html"]'' > 0);
     let inline = (length (inlineScripts doc (\<lambda>c. test (lit ''dataLayer'') c \<and> test (lit ''GTM-'') c)) > 0);
     inScripts \<leftarrow> containsInScripts w doc baseUrl (\<lambda>t. test (alts [lit ''gtm.start'', lit ''GTM-'']) t);
     Some (has \<or> inline \<or> inScripts)
   }\<close>

text \<open>
  The detectors that ask for two corroborating signals. Each sub-check is named as in
  the source; the threshold is the source's sum of \<^verbatim>\<open>x ? 1 : 0\<close>.
\<close>

definition containsMatomo :: "world \<Rightarrow> cheerio \<Rightarrow> string \<Rightarrow> bool option" where
  \<open>containsMatomo w doc baseUrl = do {
     let s = query doc ''script[src*="matomo"], script[src*="piwik"]'';
     let inline = (length (inlineScripts doc (test_i (alts [lit ''_paq.push'', lit ''Matomo'']))) > 0);
     inScripts \<leftarrow> containsInScripts w doc baseUrl (test_i (alts [lit ''_paq.push'', lit ''Matomo'']));
     Some (b2n (length s > 0) + b2n inline + b2n inScripts \<ge> 2)
   }\<close>

definition containsPlausible :: "world \<Rightarrow> cheerio \<Rightarrow> string \<Rightarrow> bool option" where
  \<open>containsPlausible w doc baseUrl = do {
     let s = query doc ''script[src*="plausible.io"]'';
     let inline = (length (inlineScripts doc (test_i (alts [lit ''plausible'', lit ''data-domain'']))) > 0);
     inScripts \<leftarrow> containsInScripts w doc baseUrl (test_i (lit ''plausible''));
     Some (b2n (length s > 0) + b2n inline + b2n inScripts \<ge> 2)
   }\<close>

definition containsMixpanel :: "world \<Rightarrow> cheerio \<Rightarrow> string \<Rightarrow> bool option" where
  \<open>containsMixpanel w doc baseUrl = do {
     let s = query doc ''script[src*="mixpanel"]'';
     let inline = (length (inlineScripts doc
                     (test_i (seqs [lit ''mixpanel'', alts [lit ''.init'', lit ''.'']]))) > 0);
     inScripts \<leftarrow> containsInScripts w doc baseUrl (test_i (lit ''mixpanel''));
     Some (b2n (length s > 0) + b2n inline + b2n inScripts \<ge> 2)
   }\<close>

definition containsAmplitude :: "world \<Rightarrow> cheerio \<Rightarrow> string \<Rightarrow> bool option" where
  \<open>containsAmplitude w doc baseUrl = do {
     let s = query doc ''script[src*="amplitude.com"]'';
     let inline = (length (inlineScripts doc (test (lit ''amplitude.getInstance().init''))) > 0);
     inScripts \<leftarrow> containsInScripts w doc baseUrl (test (lit ''amplitude.getInstance().init''));
     Some (b2n (length s > 0) + b2n inline + b2n inScripts \<ge> 2)
   }\<close>

definition containsSegment :: "world \<Rightarrow> cheerio \<Rightarrow> string \<Rightarrow> bool option" where
  \<open>containsSegment w doc baseUrl = do {
     let s = query doc ''script[src*="segment.com"], script[src*="cdn.segment.com"]'';
     inScripts \<leftarrow> containsInScripts w doc baseUrl
                    (test_i (alts [lit ''analytics.load'', lit ''SegmentSnip'']));
     Some (length s > 0 \<or> inScripts)
   }\<close>

definition containsHotjar :: "cheerio \<Rightarrow> bool" where
  \<open>containsHotjar doc =
     (count doc ''script[src*="static.hotjar.com"], script[src*="script.hotjar.com"]'' > 0
      \<or> length (inlineScripts doc (test_i (alts [lit ''hjid'', lit ''Hotjar'']))) > 0)\<close>

definition containsHubspot :: "cheerio \<Rightarrow> bool" where
  \<open>containsHubspot doc =
     (count doc ''script[src*="js.hs-scripts.com"], script[src*="js.hs-analytics.net"]'' > 0)\<close>

definition containsMailchimp :: "cheerio \<Rightarrow> bool" where
  \<open>containsMailchimp doc =
     (count doc ''script[src*="chimpstatic.com"], script[src*="mcjs"], script[src*="list-manage.com"]'' > 0)\<close>

definition containsIntercom :: "cheerio \<Rightarrow> bool" where
  \<open>containsIntercom doc =
     (count doc ''script[src*="widget.intercom.io"]'' > 0
      \<or> length (inlineScripts doc (test_i (lit ''intercomSettings''))) > 0)\<close>

definition containsDrift :: "cheerio \<Rightarrow> bool" where
  \<open>containsDrift doc = (count doc ''script[src*="js.driftt.com"]'' > 0)\<close>

definition containsSentry :: "cheerio \<Rightarrow> bool" where
  \<open>containsSentry doc =
     (count doc ''script[src*="sentry.io"], script[src*="@sentry"]'' > 0
      \<or> length (inlineScripts doc (test_i (alts [lit ''Sentry.init'', lit ''@sentry/browser'']))) > 0)\<close>

definition containsDatadog :: "cheerio \<Rightarrow> bool" where
  \<open>containsDatadog doc = (count doc ''script[src*="datadoghq"], script[src*="ddrum"]'' > 0)\<close>

definition containsNewRelic :: "cheerio \<Rightarrow> bool" where
  \<open>containsNewRelic doc = (count doc ''script[src*="nr-data.net"], script[src*="newrelic"]'' > 0)\<close>

definition containsStripe :: "cheerio \<Rightarrow> bool" where
  \<open>containsStripe doc = (count doc ''script[src*="js.stripe.com"]'' > 0)\<close>

definition containsBraintree :: "cheerio \<Rightarrow> bool" where
  \<open>containsBraintree doc =
     (count doc ''script[src*="braintree"], script[src*="paypalobjects.com/api/checkout"]'' > 0)\<close>

definition containsPaypal :: "cheerio \<Rightarrow> bool" where
  \<open>containsPaypal doc =
     (count doc ''script[src*="paypal.com/sdk/js"], script[src*="paypalobjects.com"]'' > 0)\<close>


subsection \<open>JavaScript frameworks\<close>

definition containsjQuery :: "world \<Rightarrow> cheerio \<Rightarrow> string \<Rightarrow> bool option" where
  \<open>containsjQuery w doc baseUrl = do {
     let hasTag = (count doc ''script[src*="jquery"]'' > 0);
     let inline = (length (inlineScripts doc (test (alts [lit ''jQuery'', lit ''$('']))) > 0);
     inScripts \<leftarrow> containsInScripts w doc baseUrl (test (alts [lit ''jQuery'', lit ''$('']));
     Some (b2n hasTag + b2n inline + b2n inScripts \<ge> 2)
   }\<close>

definition containsBackbone :: "world \<Rightarrow> cheerio \<Rightarrow> string \<Rightarrow> bool option" where
  \<open>containsBackbone w doc baseUrl = do {
     let hasTag = (count doc ''script[src*="backbone"]'' > 0);
     let inline = (length (inlineScripts doc
                     (test (alts [lit ''Backbone.Model'', lit ''Backbone.'']))) > 0);
     inScripts \<leftarrow> containsInScripts w doc baseUrl (test (lit ''Backbone.''));
     Some (b2n hasTag + b2n inline + b2n inScripts \<ge> 2)
   }\<close>

definition containsDojo :: "world \<Rightarrow> cheerio \<Rightarrow> string \<Rightarrow> bool option" where
  \<open>containsDojo w doc baseUrl = do {
     let hasTag = (count doc ''script[src*="dojo"]'' > 0);
     let inline = (length (inlineScripts doc (test (alts [lit ''dojo.require'', lit ''dojo.'']))) > 0);
     inScripts \<leftarrow> containsInScripts w doc baseUrl (test_i (lit ''dojo.''));
     Some (b2n hasTag + b2n inline + b2n inScripts \<ge> 2)
   }\<close>

definition containsMeteor :: "world \<Rightarrow> cheerio \<Rightarrow> string \<Rightarrow> bool option" where
  \<open>containsMeteor w doc baseUrl = do {
     let hasTag = (count doc ''script[src*="meteor"], script[src*="packages/meteor"]'' > 0);
     let inline = (length (inlineScripts doc
                     (test (alts [lit ''Meteor.startup'', lit ''Meteor.'']))) > 0);
     let hasAttr = (count doc ''[id^="meteor"]'' > 0);
     inScripts \<leftarrow> containsInScripts w doc baseUrl (test (lit ''Meteor.''));
     Some (b2n hasTag + b2n inline + b2n hasAttr + b2n inScripts \<ge> 2)
   }\<close>

definition containsNextJs :: "world \<Rightarrow> cheerio \<Rightarrow> string \<Rightarrow> bool option" where
  \<open>containsNextJs w doc baseUrl = do {
     let hasTags = (count doc ''script[src*="/_next/static/"]'' > 0
                    \<or> count doc ''script#__NEXT_DATA__'' > 0);
     inScripts \<leftarrow> containsInScripts w doc baseUrl
                    (test (alts [lit ''/_next/static/'', lit ''__NEXT_DATA__'']));
     let announcer = (count doc ''[aria-live="assertive"][id^="__next"]'' > 0
                      \<or> count doc ''[data-nextjs-router]'' > 0);
     Some (hasTags \<or> inScripts \<or> announcer)
   }\<close>

text \<open>\<^verbatim>\<open>$(selector).html()\<close>: the inner markup of the first element, if there is one.\<close>

definition firstHtml :: "cheerio \<Rightarrow> string \<Rightarrow> string option" where
  "firstHtml doc selector = (case query doc selector of [] \<Rightarrow> None | el # rest \<Rightarrow> Some (el_html el))"

definition containsReact :: "world \<Rightarrow> cheerio \<Rightarrow> string \<Rightarrow> bool option" where
  \<open>containsReact w doc baseUrl = do {
     let attrs = (count doc ''[data-reactroot], [data-reactid]'' > 0);
     let hasTags = (count doc ''script[src*="react"], script[src*="react-dom"]'' > 0);
     let inline = (length (inlineScripts doc
                     (test (alts [lit ''React.createElement'', lit ''react.production.min.js'']))) > 0);
     inScripts \<leftarrow> containsInScripts w doc baseUrl
                    (test (alts [lit ''React.createElement'', lit ''@license React'',
                                 lit ''reactjs.org'']));
     let blankRoot = (count doc ''div#root'' > 0 \<and> trim (orEmpty (firstHtml doc ''div#root'')) = []);
     Some (list_ex (\<lambda>b. b) [attrs, hasTags, inline, inScripts, blankRoot])
   }\<close>

definition containsVue :: "world \<Rightarrow> cheerio \<Rightarrow> string \<Rightarrow> bool option" where
  \<open>containsVue w doc baseUrl = do {
     let hasTags = (count doc ''script[src*="vue"], script[src*="vue-router"]'' > 0);
     let inline = (length (inlineScripts doc
                     (test (alts [lit ''new Vue('', lit ''Vue.component'']))) > 0);
     let hasDataV = (count doc ''[data-v-]'' > 0);
     inScripts \<leftarrow> containsInScripts w doc baseUrl
                    (test (alts [lit ''Vue.component'', lit ''Vue.config'', lit ''vuejs.org'']));
     Some (hasTags \<or> inline \<or> hasDataV \<or> inScripts)
   }\<close>

definition containsNuxtJs :: "world \<Rightarrow> cheerio \<Rightarrow> string \<Rightarrow> bool option" where
  \<open>containsNuxtJs w doc baseUrl = do {
     let hasTags = (count doc ''script[src*="/_nuxt/"]'' > 0 \<or> count doc ''script#nuxt-config'' > 0);
     inScripts \<leftarrow> containsInScripts w doc baseUrl (test (lit ''/_nuxt/''));
     Some (hasTags \<or> inScripts)
   }\<close>

definition containsAngular :: "world \<Rightarrow> cheerio \<Rightarrow> string \<Rightarrow> bool option" where
  \<open>containsAngular w doc baseUrl = do {
     let hasTags = (count doc ''script[src*="main.js"], script[src*="polyfills.js"]'' > 0
                    \<or> count doc ''[ng-app]'' > 0);
     inScripts \<leftarrow> containsInScripts w doc baseUrl
                    (test (alts [lit ''platformBrowserDynamic'', lit ''@angular'']));
     Some (hasTags \<or> inScripts)
   }\<close>

definition containsPolymer :: "world \<Rightarrow> cheerio \<Rightarrow> string \<Rightarrow> bool option" where
  \<open>containsPolymer w doc baseUrl = do {
     let hasTag = (count doc ''script[src*="polymer"]'' > 0 \<or> count doc ''[is]'' > 0);
     let inline = (length (inlineScripts doc
                     (test (seqs [lit ''Polymer'', Star Dot, lit ''customElements'']))) > 0);
     inScripts \<leftarrow> containsInScripts w doc baseUrl
                    (test (alts [lit ''Polymer'', lit ''polymer-project.org'', lit ''webcomponentsjs'']));
     Some (hasTag \<or> inline \<or> inScripts)
   }\<close>

definition containsGatsby :: "world \<Rightarrow> cheerio \<Rightarrow> string \<Rightarrow> bool option" where
  \<open>containsGatsby w doc baseUrl = do {
     let hasTags = (count doc ''script[src*="/gatsby"], script[src*="webpack-runtime"]'' > 0
                    \<or> count doc ''link[rel="gatsby"]'' > 0);
     let inline = (length (inlineScripts doc (test_i (lit ''gatsby''))) > 0);
     inScripts \<leftarrow> containsInScripts w doc baseUrl (test_i (lit ''gatsby''));
     Some (hasTags \<or> inline \<or> inScripts)
   }\<close>

definition containsSvelte :: "world \<Rightarrow> cheerio \<Rightarrow> string \<Rightarrow> bool option" where
  \<open>containsSvelte w doc baseUrl = do {
     let hasTags = (count doc ''script[src*="svelte"]'' > 0 \<or> count doc ''svelte-head'' > 0);
     let inline = (length (inlineScripts doc (test (lit ''SvelteComponent''))) > 0);
     inScripts \<leftarrow> containsInScripts w doc baseUrl (test (lit ''SvelteComponent''));
     Some (hasTags \<or> inline \<or> inScripts)
   }\<close>

definition containsEmber :: "world \<Rightarrow> cheerio \<Rightarrow> string \<Rightarrow> bool option" where
  \<open>containsEmber w doc baseUrl = do {
     let hasTags = (count doc ''script[src*="ember"]'' > 0 \<or> count doc ''[id^="ember"]'' > 0);
     let inline = (length (inlineScripts doc (test (lit ''Ember.Application.create''))) > 0);
     inScripts \<leftarrow> containsInScripts w doc baseUrl (test (lit ''Ember.Application.create''));
     Some (hasTags \<or> inline \<or> inScripts)
   }\<close>

definition containsAstro :: "world \<Rightarrow> cheerio \<Rightarrow> string \<Rightarrow> bool option" where
  \<open>containsAstro w doc baseUrl = do {
     let hasIslands = (count doc ''astro-island, [data-astro-cid]'' > 0);
     inScripts \<leftarrow> containsInScripts w doc baseUrl
                    (test_i (alts [lit ''astro/client'', lit ''astro-island'', lit ''astro.client'']));
     Some (hasIslands \<or> inScripts)
   }\<close>

definition containsRemix :: "world \<Rightarrow> cheerio \<Rightarrow> string \<Rightarrow> bool option" where
  \<open>containsRemix w doc baseUrl = do {
     let hasTag = (count doc ''script[data-remix-run], script[type="module"][src*="/build/"]'' > 0);
     inScripts \<leftarrow> containsInScripts w doc baseUrl
                    (test_i (alts [lit ''__remixManifest'', lit ''remix:'']));
     Some (hasTag \<or> inScripts)
   }\<close>

text \<open>The selector of \<^verbatim>\<open>containsAlpine\<close> holds two backslashes (code unit 0x5C).\<close>

definition containsAlpine :: "cheerio \<Rightarrow> bool" where
  \<open>containsAlpine doc =
    (let hasAttrs = (count doc (''[x-data], [x-init], [x-show], [x-on'' @ [CHR 0x5C]
                                 @ '':], [x-bind'' @ [CHR 0x5C] @ '':]'') > 0);
         hasScript = (count doc ''script[src*="alpinejs"]'' > 0)
     in hasAttrs \<or> hasScript)\<close>

definition containsHTMX :: "cheerio \<Rightarrow> bool" where
  \<open>containsHTMX doc =
    (let hasAttrs = (count doc ''[hx-get], [hx-post], [hx-target], [hx-swap]'' > 0);
         hasScript = (count doc ''script[src*="htmx.org"]'' > 0)
     in hasAttrs \<or> hasScript)\<close>

subsection \<open>CSS frameworks\<close>

definition containsBootstrap :: "cheerio \<Rightarrow> bool" where
  \<open>containsBootstrap doc =
    (let hasStylesheet =
           (count doc (''link[rel~="stylesheet"][href*="bootstrap"]''
                       @ '',link[href*="cdnjs.cloudflare.com/ajax/libs/bootstrap"]''
                       @ '',link[href*="cdn.jsdelivr.net/npm/bootstrap"]''
                       @ '',link[href*="maxcdn.bootstrapcdn.com/bootstrap"]''
                       @ '',link[href*="unpkg.com/bootstrap"]'') > 0);
         hasScript =
           (count doc (''script[src*="bootstrap.bundle"]''
                       @ '',script[src*="bootstrap.min.js"]''
                       @ '',script[src*="cdnjs.cloudflare.com/ajax/libs/bootstrap"]''
                       @ '',script[src*="cdn.jsdelivr.net/npm/bootstrap"]''
                       @ '',script[src*="maxcdn.bootstrapcdn.com/bootstrap"]''
                       @ '',script[src*="unpkg.com/bootstrap"]'') > 0);
         hasBsVars =
           (list_ex (\<lambda>el. test (lit ''--bs-'') (el_html el)) (query doc ''style'')
            \<or> list_ex (\<lambda>el. test (lit ''--bs-'') (orEmpty (attr el ''style''))) (query doc ''[style]''));
         dataBsCount =
           count doc ''[data-bs-toggle], [data-bs-target], [data-bs-dismiss], [data-bs-spy], [data-bs-slide]''
     in if hasStylesheet \<or> hasScript \<or> hasBsVars then True
        else if dataBsCount \<ge> 2 \<and> (hasStylesheet \<or> hasScript \<or> hasBsVars) then True
        else False)\<close>

definition containsBulma :: "cheerio \<Rightarrow> bool" where
  \<open>containsBulma doc =
    (let hasLink =
           (count doc ''link[href*="bulma.min.css"], link[href*="bulma.css"], link[href*="cdn.jsdelivr.net/npm/bulma"]'' > 0);
         gridBits = count doc ''.columns, .column, .hero, .notification, .level, .tile, .message, .navbar'';
         modifierBits = count doc ''[class*=" is-"], [class^="is-"], [class*=" has-"], [class^="has-"]''
     in hasLink \<or> (gridBits \<ge> 3 \<and> modifierBits \<ge> 4))\<close>

definition containsFoundation :: "cheerio \<Rightarrow> bool" where
  \<open>containsFoundation doc =
    (let hasLink =
           (count doc ''link[href*="foundation.min.css"], link[href*="foundation.css"], link[href*="foundation-sites"]'' > 0);
         hasJs = (count doc ''script[src*="foundation.min.js"], script[src*="foundation.js"]'' > 0);
         hasDataAttrs =
           (count doc ''[data-accordion], [data-dropdown], [data-reveal], [data-tabs], [data-off-canvas], [data-sticky], [data-magellan]'' > 0);
         modernGrid = (count doc ''.grid-x, .cell, .grid-container, .callout, .reveal'' \<ge> 3)
     in hasLink \<or> hasDataAttrs \<or> (hasJs \<and> modernGrid))\<close>

definition containsMaterializeCSS :: "world \<Rightarrow> cheerio \<Rightarrow> string \<Rightarrow> bool option" where
  \<open>containsMaterializeCSS w doc baseUrl = do {
     let hasTag = (count doc ''link[href*="materialize"], script[src*="materialize"]'' > 0);
     let inline = (length (inlineScripts doc (test (alts [lit ''M.AutoInit'', lit ''M.toast'']))) > 0);
     inScripts \<leftarrow> containsInScripts w doc baseUrl (test (alts [lit ''materialize'', lit ''M.AutoInit'']));
     Some (hasTag \<or> (inline \<and> inScripts))
   }\<close>

definition containsSemanticUI :: "world \<Rightarrow> cheerio \<Rightarrow> string \<Rightarrow> bool option" where
  \<open>containsSemanticUI w doc baseUrl = do {
     let hasLink = (count doc ''link[href*="semantic"], link[href*="semantic-ui"]'' > 0);
     let hasScript = (count doc ''script[src*="semantic"]'' > 0);
     let inline = (length (inlineScripts doc
                     (test (alts [lit ''$.fn.dropdown'', lit ''$.fn.modal'']))) > 0);
     inScripts \<leftarrow> containsInScripts w doc baseUrl (test_i (lit ''semantic''));
     Some (hasLink \<or> hasScript \<or> (inline \<and> inScripts))
   }\<close>

definition containsMaterialUI :: "world \<Rightarrow> cheerio \<Rightarrow> string \<Rightarrow> bool option" where
  \<open>containsMaterialUI w doc baseUrl = do {
     let hasTag = (count doc ''script[src*="material-ui"], script[src*="mui"]'' > 0
                   \<or> count doc ''[class*="Mui"]'' > 0);
     inScripts \<leftarrow> containsInScripts w doc baseUrl
                    (test (alts [lit ''@mui'', lit ''MuiSvgIcon'', lit ''muiName'']));
     Some (hasTag \<or> inScripts)
   }\<close>

text \<open>The utility-class pattern of \<^verbatim>\<open>containsTailwindClasses\<close>, between two \<^verbatim>\<open>\b\<close>.\<close>

definition tailwindRx :: rx where
  "tailwindRx =
    seqs [Bnd,
      alts [
        seqs [lit ''bg-'',
              alts (map lit [''red'', ''blue'', ''green'', ''yellow'', ''indigo'', ''purple'', ''pink'',
                             ''gray'', ''white'', ''black'', ''transparent'', ''current'']),
              lit ''-'',
              alts (map lit [''50'', ''100'', ''200'', ''300'', ''400'', ''500'', ''600'', ''700'',
                             ''800'', ''900''])],
        seqs [lit ''text-'',
              alts (map lit [''xs'', ''sm'', ''base'', ''lg'', ''xl'', ''2xl'', ''3xl'', ''4xl'', ''5xl'',
                             ''6xl'', ''left'', ''center'', ''right'', ''justify''])],
        seqs [lit ''rounded'', opt (seqs [lit ''-'', plus WordCh])],
        seqs [lit ''shadow'', opt (seqs [lit ''-'', plus WordCh])],
        seqs [lit ''p-'', plus Digit],
        seqs [lit ''m-'', plus Digit],
        seqs [lit ''w-'', Digit, lit ''/'', Digit],
        seqs [lit ''h-'', plus Digit],
        lit ''inline-flex'',
        lit ''flex'',
        seqs [lit ''flex-'', alts [lit ''row'', lit ''col'']],
        seqs [lit ''items-'', alts (map lit [''start'', ''end'', ''center'', ''baseline'', ''stretch''])],
        seqs [lit ''justify-'',
              alts (map lit [''start'', ''end'', ''center'', ''between'', ''around'', ''evenly''])],
        seqs [lit ''gap-'', plus Digit],
        seqs [lit ''space-'', alts [lit ''x'', lit ''y''], lit ''-'', plus Digit]],
      Bnd]"

definition containsTailwindClasses :: "cheerio \<Rightarrow> bool" where
  \<open>containsTailwindClasses doc =
    (let matchesClasses =
           list_ex (\<lambda>el. test tailwindRx (orEmpty (attr el ''class''))) (query doc ''[class]'');
         tailwindCss =
           (count doc ''link[href*="tailwind.css"], link[href*="tailwind.min.css"]'' > 0)
     in if matchesClasses \<and> tailwindCss then True
        else matchesClasses \<and> count doc ''[class*="flex "]'' > 5)\<close>


section \<open>The aggregator\<close>

text \<open>The assignments \<^verbatim>\<open>tech.field = value\<close>.\<close>

definition set_cms :: "string \<Rightarrow> TechStack \<Rightarrow> TechStack" where
  "set_cms v tech = assigned ''cms'' (tech\<lparr> cms := Some v \<rparr>)"

definition set_isWordPress :: "bool \<Rightarrow> TechStack \<Rightarrow> TechStack" where
  "set_isWordPress v tech = assigned ''isWordPress'' (tech\<lparr> isWordPressFlag := Some v \<rparr>)"

definition set_javascriptFrameworks :: "string list \<Rightarrow> TechStack \<Rightarrow> TechStack" where
  "set_javascriptFrameworks v tech =
     assigned ''javascriptFrameworks'' (tech\<lparr> javascriptFrameworks := Some v \<rparr>)"

definition set_cssFrameworks :: "string list \<Rightarrow> TechStack \<Rightarrow> TechStack" where
  "set_cssFrameworks v tech = assigned ''cssFrameworks'' (tech\<lparr> cssFrameworks := Some v \<rparr>)"

definition set_analytics :: "string list \<Rightarrow> TechStack \<Rightarrow> TechStack" where
  "set_analytics v tech = assigned ''analytics'' (tech\<lparr> analytics := Some v \<rparr>)"

definition set_marketing :: "string list \<Rightarrow> TechStack \<Rightarrow> TechStack" where
  "set_marketing v tech = assigned ''marketing'' (tech\<lparr> marketing := Some v \<rparr>)"

definition set_monitoring :: "string list \<Rightarrow> TechStack \<Rightarrow> TechStack" where
  "set_monitoring v tech = assigned ''monitoring'' (tech\<lparr> monitoring := Some v \<rparr>)"

definition set_payments :: "string list \<Rightarrow> TechStack \<Rightarrow> TechStack" where
  "set_payments v tech = assigned ''payments'' (tech\<lparr> payments := Some v \<rparr>)"

definition set_buildTools :: "string list \<Rightarrow> TechStack \<Rightarrow> TechStack" where
  "set_buildTools v tech = assigned ''buildTools'' (tech\<lparr> buildTools := Some v \<rparr>)"

definition set_compression :: "string list \<Rightarrow> TechStack \<Rightarrow> TechStack" where
  "set_compression v tech = assigned ''compression'' (tech\<lparr> compression := Some v \<rparr>)"

definition set_server :: "string \<Rightarrow> TechStack \<Rightarrow> TechStack" where
  "set_server v tech = assigned ''server'' (tech\<lparr> server := Some v \<rparr>)"

definition set_webServer :: "string \<Rightarrow> TechStack \<Rightarrow> TechStack" where
  "set_webServer v tech = assigned ''webServer'' (tech\<lparr> webServer := Some v \<rparr>)"

definition set_cdn :: "string list \<Rightarrow> TechStack \<Rightarrow> TechStack" where
  "set_cdn v tech = assigned ''cdn'' (tech\<lparr> cdn := Some v \<rparr>)"

definition set_hosting :: "string \<Rightarrow> TechStack \<Rightarrow> TechStack" where
  "set_hosting v tech = assigned ''hosting'' (tech\<lparr> hosting := Some v \<rparr>)"

text \<open>\<^verbatim>\<open>if (cond) list.push(label)\<close>.\<close>

definition pushIf :: "bool \<Rightarrow> string \<Rightarrow> string list \<Rightarrow> string list" where
  "pushIf cond label list = (if cond then list @ [label] else list)"

text \<open>\<^verbatim>\<open>$(selector).attr(name)\<close>: the attribute of the first element, if there is one.\<close>

definition firstAttr :: "cheerio \<Rightarrow> string \<Rightarrow> string \<Rightarrow> string option" where
  "firstAttr doc selector name =
     (case query doc selector of [] \<Rightarrow> None | el # rest \<Rightarrow> attr el name)"

text \<open>
  \<^verbatim>\<open>// --- CMS ---\<close>: the chain of \<^verbatim>\<open>if\<close> / \<^verbatim>\<open>else if\<close>. The discovery probe is
  the right operand of \<^verbatim>\<open>||\<close> in the WordPress test.
\<close>

definition detectCms :: "world \<Rightarrow> cheerio \<Rightarrow> string \<Rightarrow> TechStack \<Rightarrow> TechStack" where
  \<open>detectCms w doc baseUrl tech =
    (if isShopify doc then set_cms ''Shopify'' tech
     else if isSquarespace doc then set_cms ''Squarespace'' tech
     else if isWix doc then set_cms ''Wix'' tech
     else if isWordPress doc \<or> isWordPressViaAPI w baseUrl
       then set_isWordPress True (set_cms ''WordPress'' tech)
     else if isDrupal doc then set_cms ''Drupal'' tech
     else if isJoomla doc then set_cms ''Joomla'' tech
     else
       let generatorContent = firstAttr doc ''meta[name="generator"]'' ''content''
       in if truthy generatorContent then set_cms (orEmpty generatorContent) tech else tech)\<close>

text \<open>
  \<^verbatim>\<open>// --- JS frameworks ---\<close>: the table \<^verbatim>\<open>jsDetections\<close>, \<^verbatim>\<open>Promise.all\<close> over its
  promises (it rejects when one of them does), and the \<^verbatim>\<open>forEach\<close> that fills \<^verbatim>\<open>jsSet\<close>.
\<close>

definition jsDetections :: "world \<Rightarrow> cheerio \<Rightarrow> string \<Rightarrow> (string \<times> bool option) list" where
  "jsDetections w doc baseUrl =
    [(''React'', containsReact w doc baseUrl),
     (''Vue.js'', containsVue w doc baseUrl),
     (''Angular'', containsAngular w doc baseUrl),
     (''Next.js'', containsNextJs w doc baseUrl),
     (''Gatsby'', containsGatsby w doc baseUrl),
     (''Svelte'', containsSvelte w doc baseUrl),
     (''Ember.js'', containsEmber w doc baseUrl),
     (''Nuxt.js'', containsNuxtJs w doc baseUrl),
     (''Polymer'', containsPolymer w doc baseUrl),
     (''jQuery'', containsjQuery w doc baseUrl),
     (''Backbone.js'', containsBackbone w doc baseUrl),
     (''Dojo'', containsDojo w doc baseUrl),
     (''Meteor'', containsMeteor w doc baseUrl),
     (''Astro'', containsAstro w doc baseUrl),
     (''Remix'', containsRemix w doc baseUrl),
     (''Alpine.js'', Some (containsAlpine doc)),
     (''HTMX'', Some (containsHTMX doc))]"

definition jsHits :: "string list \<Rightarrow> bool list \<Rightarrow> string list" where
  "jsHits names jsResults =
     fold (\<lambda>(name, hit) jsSet. if hit then setAdd name jsSet else jsSet) (zip names jsResults) []"

definition detectJs :: "world \<Rightarrow> cheerio \<Rightarrow> string \<Rightarrow> string list option" where
  "detectJs w doc baseUrl = do {
     let detections = jsDetections w doc baseUrl;
     jsResults \<leftarrow> those (map snd detections);
     Some (jsHits (map fst detections) jsResults)
   }"

text \<open>\<^verbatim>\<open>// --- CSS frameworks ---\<close>, skipped when \<^verbatim>\<open>tech.isWordPress\<close> is set.\<close>

definition detectCss :: "world \<Rightarrow> cheerio \<Rightarrow> string \<Rightarrow> TechStack \<Rightarrow> TechStack option" where
  "detectCss w doc baseUrl tech =
    (if \<not> (isWordPressFlag tech = Some True) then do {
       let css = [];
       let css = pushIf (containsBootstrap doc) ''Bootstrap'' css;
       let css = pushIf (containsTailwindClasses doc) ''Tailwind CSS'' css;
       let css = pushIf (containsBulma doc) ''Bulma'' css;
       let css = pushIf (containsFoundation doc) ''Foundation'' css;
       mui \<leftarrow> containsMaterialUI w doc baseUrl;
       let css = pushIf mui ''Material UI'' css;
       semantic \<leftarrow> containsSemanticUI w doc baseUrl;
       let css = pushIf semantic ''Semantic UI'' css;
       materialize \<leftarrow> containsMaterializeCSS w doc baseUrl;
       let css = pushIf materialize ''Materialize CSS'' css;
       Some (if css \<noteq> [] then set_cssFrameworks css tech else tech)
     } else Some tech)"

text \<open>\<^verbatim>\<open>// --- Analytics / marketing / monitoring / payments ---\<close>\<close>

definition detectAnalytics :: "world \<Rightarrow> cheerio \<Rightarrow> string \<Rightarrow> TechStack \<Rightarrow> TechStack option" where
  "detectAnalytics w doc baseUrl tech = do {
     let list = [];
     ga \<leftarrow> containsGoogleAnalytics w doc baseUrl;
     let list = pushIf ga ''Google Analytics / gtag.js'' list;
     gtm \<leftarrow> containsGoogleTagManager w doc baseUrl;
     let list = pushIf gtm ''Google Tag Manager'' list;
     matomo \<leftarrow> containsMatomo w doc baseUrl;
     let list = pushIf matomo ''Matomo'' list;
     plausible \<leftarrow> containsPlausible w doc baseUrl;
     let list = pushIf plausible ''Plausible'' list;
     mixpanel \<leftarrow> containsMixpanel w doc baseUrl;
     let list = pushIf mixpanel ''Mixpanel'' list;
     amplitude \<leftarrow> containsAmplitude w doc baseUrl;
     let list = pushIf amplitude ''Amplitude'' list;
     segment \<leftarrow> containsSegment w doc baseUrl;
     let list = pushIf segment ''Segment'' list;
     Some (if list \<noteq> [] then set_analytics list tech else tech)
   }"

definition detectMarketing :: "cheerio \<Rightarrow> TechStack \<Rightarrow> TechStack" where
  "detectMarketing doc tech =
    (let list = [];
         list = pushIf (containsHubspot doc) ''HubSpot'' list;
         list = pushIf (containsMailchimp doc) ''Mailchimp'' list;
         list = pushIf (containsIntercom doc) ''Intercom'' list;
         list = pushIf (containsDrift doc) ''Drift'' list;
         list = pushIf (containsHotjar doc) ''Hotjar'' list
     in if list \<noteq> [] then set_marketing list tech else tech)"

definition detectMonitoring :: "cheerio \<Rightarrow> TechStack \<Rightarrow> TechStack" where
  "detectMonitoring doc tech =
    (let list = [];
         list = pushIf (containsSentry doc) ''Sentry'' list;
         list = pushIf (containsDatadog doc) ''Datadog RUM'' list;
         list = pushIf (containsNewRelic doc) ''New Relic'' list
     in if list \<noteq> [] then set_monitoring list tech else tech)"

definition detectPayments :: "cheerio \<Rightarrow> TechStack \<Rightarrow> TechStack" where
  "detectPayments doc tech =
    (let list = [];
         list = pushIf (containsStripe doc) ''Stripe'' list;
         list = pushIf (containsBraintree doc) ''Braintree'' list;
         list = pushIf (containsPaypal doc) ''PayPal'' list
     in if list \<noteq> [] then set_payments list tech else tech)"

text \<open>\<^verbatim>\<open>// --- Build tools ---\<close>: \<^verbatim>\<open>build\<close> is a set in insertion order.\<close>

definition addIf :: "bool \<Rightarrow> string \<Rightarrow> string list \<Rightarrow> string list" where
  "addIf cond label build = (if cond then setAdd label build else build)"

definition detectBuildTools ::
  "world \<Rightarrow> cheerio \<Rightarrow> string \<Rightarrow> string \<Rightarrow> TechStack \<Rightarrow> TechStack option" where
  "detectBuildTools w doc html baseUrl tech = do {
     let build = [];
     let lowerHtml = toLowerCase html;
     let build = addIf (str_includes lowerHtml ''webpack'') ''Webpack'' build;
     let build = addIf (str_includes lowerHtml ''gulp'') ''Gulp'' build;
     let build = addIf (str_includes lowerHtml ''grunt'') ''Grunt'' build;
     vite \<leftarrow> containsInScripts w doc baseUrl (test (alts [lit ''vite'', lit ''import.meta'']));
     let build = addIf vite ''Vite'' build;
     parcel \<leftarrow> containsInScripts w doc baseUrl (test (lit ''parcelRequire''));
     let build = addIf parcel ''Parcel'' build;
     rollup \<leftarrow> containsInScripts w doc baseUrl (test_i (alts [lit ''__ROLLUP__'', lit ''rollup'']));
     let build = addIf rollup ''Rollup'' build;
     Some (if build \<noteq> [] then set_buildTools build tech else tech)
   }"

text \<open>\<^verbatim>\<open>// --- Compression ---\<close>\<close>

definition detectCompression :: "(string \<times> string) list \<Rightarrow> TechStack \<Rightarrow> TechStack" where
  "detectCompression headers tech =
    (let enc = toLowerCase (orEmpty (map_of headers ''content-encoding''));
         list = [];
         list = pushIf (str_includes enc ''br'') ''Brotli'' list;
         list = pushIf (str_includes enc ''gzip'') ''Gzip'' list;
         list = pushIf (str_includes enc ''deflate'') ''Deflate'' list
     in if list \<noteq> [] then set_compression list tech else tech)"

text \<open>
  \<^verbatim>\<open>// --- Server / web platform ---\<close>: the server label (\<^verbatim>\<open>a || b\<close> takes \<^verbatim>\<open>b\<close> when
  \<^verbatim>\<open>a\<close> is absent or empty), then \<^verbatim>\<open>x-powered-by\<close>, which may add to \<^verbatim>\<open>jsSet\<close>.
\<close>

definition detectServer :: "(string \<times> string) list \<Rightarrow> TechStack \<Rightarrow> TechStack" where
  "detectServer headers tech =
    (if truthy (map_of headers ''server'')
     then
       let mapped = mapServerHeader (map_of headers ''server'')
       in set_server (if truthy mapped then orEmpty mapped else orEmpty (map_of headers ''server'')) tech
     else tech)"

definition detectPoweredBy ::
  "(string \<times> string) list \<Rightarrow> string list \<Rightarrow> TechStack \<Rightarrow> string list \<times> TechStack" where
  "detectPoweredBy headers jsSet tech =
    (if truthy (map_of headers ''x-powered-by'')
     then
       let xp = toLowerCase (orEmpty (map_of headers ''x-powered-by''));
           jsSet = addIf (str_includes xp ''next.js'') ''Next.js'' jsSet;
           jsSet = addIf (str_includes xp ''nuxt.js'') ''Nuxt.js'' jsSet;
           tech = (if \<not> test (alts [lit ''next.js'', lit ''nuxt.js'']) xp
                   then set_webServer (orEmpty (map_of headers ''x-powered-by'')) tech else tech)
       in (jsSet, tech)
     else (jsSet, tech))"

text \<open>\<^verbatim>\<open>detectTechStack\<close>: \<open>None\<close> when the promise rejects.\<close>

definition detectTechStack ::
  "world \<Rightarrow> string \<Rightarrow> (string \<times> string) list \<Rightarrow> string \<Rightarrow> TechStack option" where
  "detectTechStack w html headers baseUrl = do {
     let doc = cheerio_load w html;
     let tech = emptyTech;
     let tech = detectCms w doc baseUrl tech;
     jsSet \<leftarrow> detectJs w doc baseUrl;
     let tech = (if jsSet \<noteq> [] then set_javascriptFrameworks jsSet tech else tech);
     tech \<leftarrow> detectCss w doc baseUrl tech;
     tech \<leftarrow> detectAnalytics w doc baseUrl tech;
     let tech = detectMarketing doc tech;
     let tech = detectMonitoring doc tech;
     let tech = detectPayments doc tech;
     tech \<leftarrow> detectBuildTools w doc html baseUrl tech;
     let tech = detectCompression headers tech;
     let tech = detectServer headers tech;
     let (jsSet, tech) = detectPoweredBy headers jsSet tech;
     let tech = (if jsSet \<noteq> [] then set_javascriptFrameworks jsSet tech else tech);
     let cdnList = inferCDN headers;
     let tech = (if cdnList \<noteq> [] then set_cdn cdnList tech else tech);
     let hostingName = inferHosting headers;
     let tech = (if truthy hostingName then set_hosting (orEmpty hostingName) tech else tech);
     Some (dedupeEdgeVsOrigin tech)
   }"

section \<open>The route handler\<close>

text \<open>
  \<^verbatim>\<open>NextResponse.json(body, { status })\<close>. The handler reaches the network in two
  places only: its own \<^verbatim>\<open>http.get(url)\<close> for the primary document, and the call of
  \<^verbatim>\<open>detectTechStack\<close>, inside which the discovery probe and the script fetches are
  issued. \<open>calls\<close> lists these two calls as the handler makes them.
\<close>

datatype payload = ErrorBody string | TechBody TechStack

datatype call = PrimaryFetch string | Analyze string

record reply =
  code :: nat
  payload :: payload
  calls :: "call list"

definition digitChar :: "nat \<Rightarrow> char" where
  "digitChar d = ''0123456789'' ! d"

fun showNat :: "nat \<Rightarrow> string" where
  "showNat n = (if n < 10 then [digitChar n] else showNat (n div 10) @ [digitChar (n mod 10)])"

declare showNat.simps [simp del]

text \<open>\<^verbatim>\<open>String(data || '')\<close>\<close>

definition toHtml :: "world \<Rightarrow> json \<Rightarrow> string" where
  "toHtml w d = (if \<not> jsTruthy d then [] else (case d of JStr s \<Rightarrow> s | _ \<Rightarrow> String_of w d))"

text \<open>
  \<^verbatim>\<open>Object.fromEntries\<close> over the response headers with lower-cased names; a list value
  is joined with a comma and a space.
\<close>

definition normalizeHeaders :: "(string \<times> hval) list \<Rightarrow> (string \<times> string) list" where
  "normalizeHeaders hs =
     fold (\<lambda>(k, v) h. AList.update (toLowerCase k)
                         (case v of HArr xs \<Rightarrow> join '', '' xs | HStr s \<Rightarrow> s) h) hs []"

text \<open>
  \<^verbatim>\<open>POST\<close>. The argument is the outcome of \<^verbatim>\<open>req.json()\<close> (\<open>None\<close> when it rejects).
  Destructuring \<^verbatim>\<open>{ url }\<close> throws on \<^verbatim>\<open>null\<close>; both land in the outer \<^verbatim>\<open>catch\<close>, as does
  a rejection of \<^verbatim>\<open>detectTechStack\<close>.
\<close>

definition invalidBody :: "call list \<Rightarrow> reply" where
  "invalidBody cs = \<lparr> code = 400, payload = ErrorBody ''Invalid request body'', calls = cs \<rparr>"

definition POST :: "world \<Rightarrow> json option \<Rightarrow> reply" where
  "POST w reqJson =
    (case reqJson of
       None \<Rightarrow> invalidBody []
     | Some JNull \<Rightarrow> invalidBody []
     | Some body \<Rightarrow>
         (case getProp body ''url'' of
            Some (JStr u) \<Rightarrow>
              if u = [] then \<lparr> code = 400, payload = ErrorBody ''URL is required'', calls = [] \<rparr>
              else
                (case transport w u of
                   Failed f \<Rightarrow>
                     \<lparr> code = 502, payload = ErrorBody ''Error fetching the URL'',
                       calls = [PrimaryFetch u] \<rparr>
                 | Responded response \<Rightarrow>
                     if status response = 403
                     then \<lparr> code = 403, payload = ErrorBody ''Access to the URL is forbidden (403).'',
                            calls = [PrimaryFetch u] \<rparr>
                     else if status response \<ge> 400
                     then \<lparr> code = 400,
                            payload = ErrorBody (''Target responded with '' @ showNat (status response)),
                            calls = [PrimaryFetch u] \<rparr>
                     else
                       let headers = normalizeHeaders (resp_headers response)
                       in (case detectTechStack w (toHtml w (resp_data response)) headers u of
                             None \<Rightarrow> invalidBody [PrimaryFetch u, Analyze u]
                           | Some tech \<Rightarrow>
                               \<lparr> code = 200, payload = TechBody tech,
                                 calls = [PrimaryFetch u, Analyze u] \<rparr>))
          | _ \<Rightarrow> \<lparr> code = 400, payload = ErrorBody ''URL is required'', calls = [] \<rparr>))"

section \<open>Notions the properties are stated with\<close>

text \<open>
  The sub-checks of each detector whose verdict asks for two corroborating signals, in
  the order in which the source adds them up. For a detector that reads script bodies
  the list exists when \<^verbatim>\<open>containsInScripts\<close> returns.
\<close>

definition trueCount :: "bool list \<Rightarrow> nat" where
  "trueCount bs = length (filter (\<lambda>b. b) bs)"

definition checks :: "rx list \<Rightarrow> string \<Rightarrow> bool list" where
  "checks signals text = map (\<lambda>r. test_i r text) signals"

definition matomoSignals :: "world \<Rightarrow> cheerio \<Rightarrow> string \<Rightarrow> bool list option" where
  \<open>matomoSignals w doc baseUrl =
     map_option
       (\<lambda>inScripts.
          [length (query doc ''script[src*="matomo"], script[src*="piwik"]'') > 0,
           length (inlineScripts doc (test_i (alts [lit ''_paq.push'', lit ''Matomo'']))) > 0,
           inScripts])
       (containsInScripts w doc baseUrl (test_i (alts [lit ''_paq.push'', lit ''Matomo''])))\<close>

definition plausibleSignals :: "world \<Rightarrow> cheerio \<Rightarrow> string \<Rightarrow> bool list option" where
  \<open>plausibleSignals w doc baseUrl =
     map_option
       (\<lambda>inScripts.
          [length (query doc ''script[src*="plausible.io"]'') > 0,
           length (inlineScripts doc (test_i (alts [lit ''plausible'', lit ''data-domain'']))) > 0,
           inScripts])
       (containsInScripts w doc baseUrl (test_i (lit ''plausible'')))\<close>

definition mixpanelSignals :: "world \<Rightarrow> cheerio \<Rightarrow> string \<Rightarrow> bool list option" where
  \<open>mixpanelSignals w doc baseUrl =
     map_option
       (\<lambda>inScripts.
          [length (query doc ''script[src*="mixpanel"]'') > 0,
           length (inlineScripts doc
                     (test_i (seqs [lit ''mixpanel'', alts [lit ''.init'', lit ''.'']]))) > 0,
           inScripts])
       (containsInScripts w doc baseUrl (test_i (lit ''mixpanel'')))\<close>

definition amplitudeSignals :: "world \<Rightarrow> cheerio \<Rightarrow> string \<Rightarrow> bool list option" where
  \<open>amplitudeSignals w doc baseUrl =
     map_option
       (\<lambda>inScripts.
          [length (query doc ''script[src*="amplitude.com"]'') > 0,
           length (inlineScripts doc (test (lit ''amplitude.getInstance().init''))) > 0,
           inScripts])
       (containsInScripts w doc baseUrl (test (lit ''amplitude.getInstance().init'')))\<close>

definition jQuerySignals :: "world \<Rightarrow> cheerio \<Rightarrow> string \<Rightarrow> bool list option" where
  \<open>jQuerySignals w doc baseUrl =
     map_option
       (\<lambda>inScripts.
          [count doc ''script[src*="jquery"]'' > 0,
           length (inlineScripts doc (test (alts [lit ''jQuery'', lit ''$('']))) > 0,
           inScripts])
       (containsInScripts w doc baseUrl (test (alts [lit ''jQuery'', lit ''$(''])))\<close>

definition backboneSignals :: "world \<Rightarrow> cheerio \<Rightarrow> string \<Rightarrow> bool list option" where
  \<open>backboneSignals w doc baseUrl =
     map_option
       (\<lambda>inScripts.
          [count doc ''script[src*="backbone"]'' > 0,
           length (inlineScripts doc (test (alts [lit ''Backbone.Model'', lit ''Backbone.'']))) > 0,
           inScripts])
       (containsInScripts w doc baseUrl (test (lit ''Backbone.'')))\<close>

definition dojoSignals :: "world \<Rightarrow> cheerio \<Rightarrow> string \<Rightarrow> bool list option" where
  \<open>dojoSignals w doc baseUrl =
     map_option
       (\<lambda>inScripts.
          [count doc ''script[src*="dojo"]'' > 0,
           length (inlineScripts doc (test (alts [lit ''dojo.require'', lit ''dojo.'']))) > 0,
           inScripts])
       (containsInScripts w doc baseUrl (test_i (lit ''dojo.'')))\<close>

definition meteorSignals :: "world \<Rightarrow> cheerio \<Rightarrow> string \<Rightarrow> bool list option" where
  \<open>meteorSignals w doc baseUrl =
     map_option
       (\<lambda>inScripts.
          [count doc ''script[src*="meteor"], script[src*="packages/meteor"]'' > 0,
           length (inlineScripts doc (test (alts [lit ''Meteor.startup'', lit ''Meteor.'']))) > 0,
           count doc ''[id^="meteor"]'' > 0,
           inScripts])
       (containsInScripts w doc baseUrl (test (lit ''Meteor.'')))\<close>

text \<open>Each such detector with its signals and its verdict.\<close>

definition corroborated ::
  "world \<Rightarrow> cheerio \<Rightarrow> string \<Rightarrow> (string \<times> bool list option \<times> bool option) list" where
  "corroborated w doc baseUrl =
    [(''Matomo'', matomoSignals w doc baseUrl, containsMatomo w doc baseUrl),
     (''Plausible'', plausibleSignals w doc baseUrl, containsPlausible w doc baseUrl),
     (''Mixpanel'', mixpanelSignals w doc baseUrl, containsMixpanel w doc baseUrl),
     (''Amplitude'', amplitudeSignals w doc baseUrl, containsAmplitude w doc baseUrl),
     (''jQuery'', jQuerySignals w doc baseUrl, containsjQuery w doc baseUrl),
     (''Backbone.js'', backboneSignals w doc baseUrl, containsBackbone w doc baseUrl),
     (''Dojo'', dojoSignals w doc baseUrl, containsDojo w doc baseUrl),
     (''Meteor'', meteorSignals w doc baseUrl, containsMeteor w doc baseUrl),
     (''WordPress'', Some (checks wordPressSignals (root_html doc)), Some (isWordPress doc)),
     (''Drupal'', Some (checks drupalPatterns (toLowerCase (root_html doc))), Some (isDrupal doc)),
     (''Joomla'', Some (checks joomlaPatterns (toLowerCase (root_html doc))), Some (isJoomla doc)),
     (''Shopify'', Some (checks shopifySignals (root_html doc)), Some (isShopify doc)),
     (''Wix'', Some (checks wixPatterns (toLowerCase (root_html doc))), Some (isWix doc))]"

text \<open>
  The CMS detectors in their priority order, each with its verdict; the first entry
  whose verdict is true names the CMS. When none is, the content of the generator
  meta tag is reported, if there is one.
\<close>

definition cmsChain :: "world \<Rightarrow> cheerio \<Rightarrow> string \<Rightarrow> (string \<times> bool) list" where
  "cmsChain w doc baseUrl =
    [(''Shopify'', isShopify doc),
     (''Squarespace'', isSquarespace doc),
     (''Wix'', isWix doc),
     (''WordPress'', isWordPress doc \<or> isWordPressViaAPI w baseUrl),
     (''Drupal'', isDrupal doc),
     (''Joomla'', isJoomla doc)]"

definition firstMatch :: "(string \<times> bool) list \<Rightarrow> string option" where
  "firstMatch chain = map_option fst (find snd chain)"

definition generatorFallback :: "cheerio \<Rightarrow> string option" where
  \<open>generatorFallback doc =
    (let g = firstAttr doc ''meta[name="generator"]'' ''content'' in if truthy g then g else None)\<close>

text \<open>
  The record after the CMS stage as a function of the name of the first match and of the
  fallback alone: the name goes to \<^verbatim>\<open>cms\<close>, the flag \<^verbatim>\<open>isWordPress\<close> is set when the
  name comes from the WordPress entry, and nothing else is written.
\<close>

definition cmsRecord :: "string option \<Rightarrow> string option \<Rightarrow> TechStack" where
  "cmsRecord first fallback =
    (case first of
       Some name \<Rightarrow>
         if name = ''WordPress'' then set_isWordPress True (set_cms name emptyTech)
         else set_cms name emptyTech
     | None \<Rightarrow> (case fallback of Some g \<Rightarrow> set_cms g emptyTech | None \<Rightarrow> emptyTech))"


text \<open>
  A page that matches no signature: every stage that reads the page, the script bodies
  or the discovery probe returns and leaves the empty record as it is (no CMS and no
  generator tag, no JavaScript or CSS framework, no analytics, marketing, monitoring or
  payment service, no build tool).
\<close>

definition noSignature :: "world \<Rightarrow> cheerio \<Rightarrow> string \<Rightarrow> string \<Rightarrow> bool" where
  "noSignature w doc html baseUrl =
    (detectCms w doc baseUrl emptyTech = emptyTech
     \<and> detectJs w doc baseUrl = Some []
     \<and> detectCss w doc baseUrl emptyTech = Some emptyTech
     \<and> detectAnalytics w doc baseUrl emptyTech = Some emptyTech
     \<and> detectMarketing doc emptyTech = emptyTech
     \<and> detectMonitoring doc emptyTech = emptyTech
     \<and> detectPayments doc emptyTech = emptyTech
     \<and> detectBuildTools w doc html baseUrl emptyTech = Some emptyTech)"

text \<open>
  A pattern character that, under the \<^verbatim>\<open>i\<close> flag, matches exactly the characters whose
  lower-case form it is (every ASCII character but the capital letters is one).
\<close>

definition foldsTo :: "char \<Rightarrow> bool" where
  "foldsTo c = (\<forall>x. (canon c = canon x) = (toLowerChar x = c))"

text \<open>
  Headers as the route handler builds them: the names are lower-case and no name occurs
  twice.
\<close>

definition lowerCased :: "(string \<times> string) list \<Rightarrow> bool" where
  "lowerCased headers =
     (distinct (map fst headers) \<and> list_all (\<lambda>k. toLowerCase k = k) (map fst headers))"

text \<open>
  Two runs on the same frozen evidence: the same parser output for the page, the same
  URL parser, and the same body (or the same failure) for every script address that is
  selected for fetching.
\<close>

definition sameEvidence :: "world \<Rightarrow> world \<Rightarrow> string \<Rightarrow> string \<Rightarrow> bool" where
  "sameEvidence w1 w2 html baseUrl =
     (cheerio_load w1 html = cheerio_load w2 html \<and> newURL w1 = newURL w2 \<and>
      (case pickTopScripts w1 (cheerio_load w1 html) baseUrl of
         None \<Rightarrow> True
       | Some urls \<Rightarrow> list_all (\<lambda>u. fetchText w1 u = fetchText w2 u) urls))"

section \<open>Example inputs\<close>

text \<open>
  A URL parser for the examples. It covers the addresses that the examples use:
  \<^verbatim>\<open>https\<close> addresses that are already in normal form, and, against such a base,
  protocol-relative addresses (\<^verbatim>\<open>//host/path\<close>) and absolute paths. Every other address
  is outside its domain and gets \<open>None\<close>, although the platform's parser accepts more
  (relative paths, other schemes, addresses that it would normalise); no example
  contains one.
\<close>

definition hostOf :: "string \<Rightarrow> string" where
  "hostOf u = takeWhile (\<lambda>c. c \<noteq> CHR ''/'') (drop 8 u)"

definition simpleURL :: "string \<Rightarrow> string option \<Rightarrow> url option" where
  "simpleURL input base =
    (if startsWith input ''https://'' then Some \<lparr> href = input, host = hostOf input \<rparr>
     else
       (case base of
          None \<Rightarrow> None
        | Some b \<Rightarrow>
            if startsWith b ''https://'' \<and> startsWith input ''//''
            then Some \<lparr> href = ''https:'' @ input, host = hostOf (''https:'' @ input) \<rparr>
            else if startsWith b ''https://'' \<and> startsWith input ''/''
            then Some \<lparr> href = ''https://'' @ hostOf b @ input, host = hostOf b \<rparr>
            else None))"

definition exampleWorld ::
  "cheerio \<Rightarrow> (string \<Rightarrow> http_result) \<Rightarrow> (string \<Rightarrow> http_result) \<Rightarrow> world" where
  "exampleWorld doc net probe =
     \<lparr> cheerio_load = (\<lambda>html. doc), newURL = simpleURL, transport = net,
       transport_probe = probe, JSON_stringify = (\<lambda>v. ''{}''), String_of = (\<lambda>v. ''[object Object]'') \<rparr>"

definition offline :: "string \<Rightarrow> http_result" where
  "offline u = Failed NetworkError"

definition exampleUrl :: string where
  "exampleUrl = ''https://example.com/''"

text \<open>The empty document, as the parser serialises it.\<close>

definition emptyDoc :: cheerio where
  "emptyDoc = \<lparr> root_html = ''<html><head></head><body></body></html>'', query = (\<lambda>selector. []) \<rparr>"

text \<open>A target that answers 403.\<close>

definition forbidden :: "string \<Rightarrow> http_result" where
  "forbidden u = Responded \<lparr> status = 403, resp_headers = [], resp_data = JStr ''Forbidden'' \<rparr>"

text \<open>A discovery endpoint that answers as a WordPress site does.\<close>

definition wpProbe :: "string \<Rightarrow> http_result" where
  "wpProbe u =
     Responded \<lparr> status = 200,
                 resp_headers = [(''content-type'', HStr ''application/json; charset=UTF-8'')],
                 resp_data = JObj [(''namespaces'', JArr [JStr ''wp/v2'']),
                                   (''routes'', JObj [(''/'', JObj [])])] \<rparr>"

text \<open>A page with one jQuery script tag.\<close>

definition jqueryTag :: element where
  "jqueryTag = \<lparr> el_tag = ''script'', el_attrs = [(''src'', ''/jquery.min.js'')], el_html = [] \<rparr>"

definition jqueryDoc :: cheerio where
  \<open>jqueryDoc =
     \<lparr> root_html = ''<html><head><script src="/jquery.min.js"></script></head><body></body></html>'',
       query = (\<lambda>selector.
          if selector \<in> {''script'', ''script[src*="jquery"]'',
                          ''script[src],link[rel="preload"][as="script"][href]''}
          then [jqueryTag] else []) \<rparr>\<close>

text \<open>A page that links the same script twice, and a page with three scripts.\<close>

definition scriptTag :: "(string \<times> string) list \<Rightarrow> element" where
  "scriptTag as = \<lparr> el_tag = ''script'', el_attrs = as, el_html = [] \<rparr>"

definition twiceDoc :: cheerio where
  \<open>twiceDoc =
     \<lparr> root_html = ''<html><head><script src="/a.js"></script><script src="/a.js"></script></head><body></body></html>'',
       query = (\<lambda>selector.
          if selector \<in> {''script'', ''script[src],link[rel="preload"][as="script"][href]''}
          then [scriptTag [(''src'', ''/a.js'')], scriptTag [(''src'', ''/a.js'')]] else []) \<rparr>\<close>

definition threeDoc :: cheerio where
  \<open>threeDoc =
     \<lparr> root_html = ''<html><head><script src="https://cdn.example.net/x.js"></script><script src="/y.js"></script><script type="module" src="/z.js"></script></head><body></body></html>'',
       query = (\<lambda>selector.
          if selector \<in> {''script'', ''script[src],link[rel="preload"][as="script"][href]''}
          then [scriptTag [(''src'', ''https://cdn.example.net/x.js'')],
                scriptTag [(''src'', ''/y.js'')],
                scriptTag [(''type'', ''module''), (''src'', ''/z.js'')]]
          else []) \<rparr>\<close>


text \<open>
  The selector of the style sheets in \<^verbatim>\<open>containsBootstrap\<close>, a WordPress page (two asset
  paths) that links a Bootstrap style sheet, and a page with two Shopify markers, two
  WordPress markers and the same style sheet.
\<close>

definition bootstrapSheets :: string where
  \<open>bootstrapSheets =
     ''link[rel~="stylesheet"][href*="bootstrap"]''
     @ '',link[href*="cdnjs.cloudflare.com/ajax/libs/bootstrap"]''
     @ '',link[href*="cdn.jsdelivr.net/npm/bootstrap"]''
     @ '',link[href*="maxcdn.bootstrapcdn.com/bootstrap"]''
     @ '',link[href*="unpkg.com/bootstrap"]''\<close>

definition bootstrapLink :: element where
  "bootstrapLink =
     \<lparr> el_tag = ''link'', el_attrs = [(''rel'', ''stylesheet''), (''href'', ''/css/bootstrap.min.css'')],
       el_html = [] \<rparr>"

definition wpBootstrapDoc :: cheerio where
  \<open>wpBootstrapDoc =
     \<lparr> root_html = ''<html><head><link rel="stylesheet" href="/css/bootstrap.min.css"></head><body><a href="/wp-content/a"></a><a href="/wp-includes/b"></a></body></html>'',
       query = (\<lambda>selector. if selector = bootstrapSheets then [bootstrapLink] else []) \<rparr>\<close>

definition shopBootstrapDoc :: cheerio where
  \<open>shopBootstrapDoc =
     \<lparr> root_html = ''<html><head><link rel="stylesheet" href="/css/bootstrap.min.css"></head><body><a href="//cdn.shopify.com/wp-content/" data-shopify="/wp-includes/"></a></body></html>'',
       query = (\<lambda>selector. if selector = bootstrapSheets then [bootstrapLink] else []) \<rparr>\<close>

text \<open>
  A WordPress page (two asset paths) that carries an Alpine attribute, and a page whose
  only WordPress marker is a generator tag without a version.
\<close>

definition alpineSelector :: string where
  "alpineSelector = ''[x-data], [x-init], [x-show], [x-on'' @ [CHR 0x5C] @ '':], [x-bind''
                     @ [CHR 0x5C] @ '':]''"

definition wpAlpineDoc :: cheerio where
  \<open>wpAlpineDoc =
     \<lparr> root_html = ''<html><head></head><body><a href="/wp-content/a"></a><a href="/wp-includes/b"></a><div x-data="{}"></div></body></html>'',
       query = (\<lambda>selector.
          if selector = alpineSelector
          then [\<lparr> el_tag = ''div'', el_attrs = [(''x-data'', ''{}'')], el_html = [] \<rparr>]
          else []) \<rparr>\<close>

definition generatorDoc :: cheerio where
  \<open>generatorDoc =
     \<lparr> root_html = ''<html><head><meta name="generator" content="WordPress"></head><body></body></html>'',
       query = (\<lambda>selector.
          if selector = ''meta[name="generator"]''
          then [\<lparr> el_tag = ''meta'', el_attrs = [(''name'', ''generator''), (''content'', ''WordPress'')],
                  el_html = [] \<rparr>]
          else []) \<rparr>\<close>

section \<open>Characters and patterns\<close>

text \<open>The character functions by the value of the code unit.\<close>

lemma toLowerChar_value:
  "(of_char (toLowerChar c) :: nat) =
     (let n = of_char c
      in if (65 \<le> n \<and> n \<le> 90) \<or> (192 \<le> n \<and> n \<le> 222 \<and> n \<noteq> 215) then n + 32 else n)"
proof (cases c)
  case (Char b0 b1 b2 b3 b4 b5 b6 b7)
  then show ?thesis
    by (cases b0; cases b1; cases b2; cases b3; cases b4; cases b5; cases b6; cases b7)
       (simp_all add: letterBits_def latinCapitalBits_def)
qed

lemma canon_value:
  "(of_char (canon c) :: nat) =
     (let n = of_char c in if 97 \<le> n \<and> n \<le> 122 then n - 32 else n)"
proof (cases c)
  case (Char b0 b1 b2 b3 b4 b5 b6 b7)
  then show ?thesis
    by (cases b0; cases b1; cases b2; cases b3; cases b4; cases b5; cases b6; cases b7)
       (simp_all add: letterBits_def)
qed

text \<open>
  A literal pattern with the \<^verbatim>\<open>i\<close> flag matches \<open>s\<close> exactly when the lower-cased \<open>s\<close>
  includes it, provided the literal is written without capital letters.
\<close>

lemma startsWith_Nil: "startsWith [] w = (w = [])"
  by (cases w) simp_all

lemma rmatch_lit:
  "list_all foldsTo w \<Longrightarrow>
     (rmatch (lit w) True (p, s) \<noteq> []) = startsWith (map toLowerChar s) w"
proof (induction w arbitrary: p s)
  case Nil
  then show ?case by (simp add: lit_def)
next
  case (Cons c w)
  then have fc: "foldsTo c" and w: "list_all foldsTo w"
    by simp_all
  from fc have c: "\<And>x. (canon c = canon x) = (toLowerChar x = c)"
    by (simp add: foldsTo_def)
  have l: "lit (c # w) = Seq (Chr c) (lit w)"
    by (simp add: lit_def)
  show ?case
  proof (cases s)
    case Nil
    then show ?thesis by (simp add: l oneChar_def)
  next
    case (Cons x xs)
    with Cons.IH [OF w, of "Some x" xs] c [of x] show ?thesis
      by (simp add: l oneChar_def chrEq_def)
  qed
qed

lemma search_lit:
  "list_all foldsTo w \<Longrightarrow> search (lit w) True p s = str_includes (map toLowerChar s) w"
proof (induction s arbitrary: p)
  case Nil
  then show ?case
    using rmatch_lit [of w p "[]"] by (simp add: startsWith_Nil)
next
  case (Cons x xs)
  then show ?case
    using rmatch_lit [of w p "x # xs"] by simp
qed

lemma foldsTo_lower:
  "\<not> b7 \<Longrightarrow> b6 \<Longrightarrow> b5 \<Longrightarrow> foldsTo (Char b0 b1 b2 b3 b4 b5 b6 b7)"
  unfolding foldsTo_def
proof
  fix x
  assume "\<not> b7" "b6" "b5"
  then show "(canon (Char b0 b1 b2 b3 b4 b5 b6 b7) = canon x)
      = (toLowerChar x = Char b0 b1 b2 b3 b4 b5 b6 b7)"
    by (cases x) (auto simp: letterBits_def latinCapitalBits_def)
qed

lemma test_i_cloudflare:
  "test_i (lit ''cloudflare'') raw = str_includes (toLowerCase raw) ''cloudflare''"
  unfolding test_i_def toLowerCase_def
  by (rule search_lit) (simp add: foldsTo_lower)

section \<open>The route handler: error responses\<close>

text \<open>
  C3. When the fetch of the primary document completes with status 403, the handler
  answers 403 with the message that access is forbidden: not the 502 of a failed
  fetch, not the 400 of another error status, and the analysis is not started.
\<close>

theorem POST_forbidden:
  assumes "getProp body ''url'' = Some (JStr u)" and "u \<noteq> []"
    and "transport w u = Responded r" and "status r = 403"
  shows "POST w (Some body) =
           \<lparr> code = 403, payload = ErrorBody ''Access to the URL is forbidden (403).'',
             calls = [PrimaryFetch u] \<rparr>"
proof -
  from assms(1) obtain kvs where "body = JObj kvs"
    by (cases body) (simp_all add: getProp_def)
  with assms show ?thesis
    by (simp add: POST_def)
qed

theorem POST_forbidden_witness:
  "POST (exampleWorld emptyDoc forbidden offline) (Some (JObj [(''url'', JStr exampleUrl)])) =
     \<lparr> code = 403, payload = ErrorBody ''Access to the URL is forbidden (403).'',
       calls = [PrimaryFetch exampleUrl] \<rparr>"
  using POST_forbidden [of "JObj [(''url'', JStr exampleUrl)]" exampleUrl
                     "exampleWorld emptyDoc forbidden offline"
                     "\<lparr> status = 403, resp_headers = [], resp_data = JStr ''Forbidden'' \<rparr>"]
  by (simp add: getProp_def exampleUrl_def exampleWorld_def forbidden_def)

text \<open>
  C4, as the code has it. For every parsed body in which \<^verbatim>\<open>url\<close> is missing, is not a
  string or is the empty string, the handler answers 400 with an error message and
  reaches the network in neither of its two places. The message is \<^verbatim>\<open>URL is required\<close>
  for every body other than \<^verbatim>\<open>null\<close> (an object, an array, a string, a number, a
  boolean); destructuring \<^verbatim>\<open>null\<close> throws, and the outer \<^verbatim>\<open>catch\<close> answers
  \<^verbatim>\<open>Invalid request body\<close>.
\<close>

theorem POST_url_required:
  assumes "\<not> (\<exists>u. u \<noteq> [] \<and> getProp body ''url'' = Some (JStr u))"
  shows "POST w (Some body) =
           \<lparr> code = 400,
             payload = ErrorBody (if body = JNull then ''Invalid request body''
                                  else ''URL is required''),
             calls = [] \<rparr>"
  using assms
  by (cases body; cases "getProp body ''url''")
     (auto simp: POST_def invalidBody_def split: json.splits)

theorem POST_url_required_witness:
  "POST (exampleWorld emptyDoc offline offline) (Some (JObj [])) =
     \<lparr> code = 400, payload = ErrorBody ''URL is required'', calls = [] \<rparr>"
  using POST_url_required [of "JObj []" "exampleWorld emptyDoc offline offline"]
  by (simp add: getProp_def)

text \<open>
  The body \<^verbatim>\<open>null\<close> has no \<^verbatim>\<open>url\<close> field, and the answer is not \<^verbatim>\<open>URL is required\<close>.
\<close>

theorem POST_null_body:
  "getProp JNull ''url'' = None
   \<and> POST (exampleWorld emptyDoc offline offline) (Some JNull) =
       \<lparr> code = 400, payload = ErrorBody ''Invalid request body'', calls = [] \<rparr>
   \<and> payload (POST (exampleWorld emptyDoc offline offline) (Some JNull))
       \<noteq> ErrorBody ''URL is required''"
  by (simp add: POST_def getProp_def invalidBody_def)

section \<open>The corroboration threshold\<close>

lemma trueCount_checks: "trueCount (checks signals t) = score signals t"
  by (simp add: trueCount_def checks_def score_def length_filter_map comp_def)

lemma b2n_sum3: "trueCount [a, b, c] = b2n a + b2n b + b2n c"
  by (simp add: trueCount_def b2n_def)

lemma b2n_sum4: "trueCount [a, b, c, d] = b2n a + b2n b + b2n c + b2n d"
  by (simp add: trueCount_def b2n_def)

text \<open>
  C5. For each detector that asks for two corroborating signals (Matomo, Plausible,
  Mixpanel, Amplitude, jQuery, Backbone, Dojo, Meteor, the WordPress markup check, and
  also Drupal, Joomla, Shopify and Wix): when exactly one of its sub-checks is true, its
  verdict is \<^verbatim>\<open>false\<close>.
\<close>

theorem corroboration_threshold:
  assumes "(name, signals, verdict) \<in> set (corroborated w doc baseUrl)"
    and "signals = Some sg" and "trueCount sg = 1"
  shows "verdict = Some False"
proof -
  from assms(1) consider
      "signals = matomoSignals w doc baseUrl" "verdict = containsMatomo w doc baseUrl"
    | "signals = plausibleSignals w doc baseUrl" "verdict = containsPlausible w doc baseUrl"
    | "signals = mixpanelSignals w doc baseUrl" "verdict = containsMixpanel w doc baseUrl"
    | "signals = amplitudeSignals w doc baseUrl" "verdict = containsAmplitude w doc baseUrl"
    | "signals = jQuerySignals w doc baseUrl" "verdict = containsjQuery w doc baseUrl"
    | "signals = backboneSignals w doc baseUrl" "verdict = containsBackbone w doc baseUrl"
    | "signals = dojoSignals w doc baseUrl" "verdict = containsDojo w doc baseUrl"
    | "signals = meteorSignals w doc baseUrl" "verdict = containsMeteor w doc baseUrl"
    | rs t where "signals = Some (checks rs t)" "verdict = Some (score rs t \<ge> 2)"
    by (auto simp: corroborated_def isWordPress_def isDrupal_def isJoomla_def isShopify_def
          isWix_def)
  then show ?thesis
  proof cases
    case 1
    with assms(2,3) show ?thesis
      by (auto simp: matomoSignals_def containsMatomo_def b2n_sum3 count_def)
  next
    case 2
    with assms(2,3) show ?thesis
      by (auto simp: plausibleSignals_def containsPlausible_def b2n_sum3 count_def)
  next
    case 3
    with assms(2,3) show ?thesis
      by (auto simp: mixpanelSignals_def containsMixpanel_def b2n_sum3 count_def)
  next
    case 4
    with assms(2,3) show ?thesis
      by (auto simp: amplitudeSignals_def containsAmplitude_def b2n_sum3 count_def)
  next
    case 5
    with assms(2,3) show ?thesis
      by (auto simp: jQuerySignals_def containsjQuery_def b2n_sum3 count_def)
  next
    case 6
    with assms(2,3) show ?thesis
      by (auto simp: backboneSignals_def containsBackbone_def b2n_sum3 count_def)
  next
    case 7
    with assms(2,3) show ?thesis
      by (auto simp: dojoSignals_def containsDojo_def b2n_sum3 count_def)
  next
    case 8
    with assms(2,3) show ?thesis
      by (auto simp: meteorSignals_def containsMeteor_def b2n_sum4 count_def)
  next
    case 9
    with assms(2,3) show ?thesis
      by (auto simp: trueCount_checks)
  qed
qed

lemma jquery_eval:
  "jQuerySignals (exampleWorld jqueryDoc offline offline) jqueryDoc exampleUrl = Some [True, False, False]"
  by code_simp

theorem corroboration_threshold_witness:
  "(''jQuery'', Some [True, False, False],
      containsjQuery (exampleWorld jqueryDoc offline offline) jqueryDoc exampleUrl)
     \<in> set (corroborated (exampleWorld jqueryDoc offline offline) jqueryDoc exampleUrl)
   \<and> trueCount [True, False, False] = 1
   \<and> containsjQuery (exampleWorld jqueryDoc offline offline) jqueryDoc exampleUrl = Some False"
proof -
  have m: "(''jQuery'', Some [True, False, False],
      containsjQuery (exampleWorld jqueryDoc offline offline) jqueryDoc exampleUrl)
     \<in> set (corroborated (exampleWorld jqueryDoc offline offline) jqueryDoc exampleUrl)"
    by (simp add: corroborated_def jquery_eval)
  have c: "trueCount [True, False, False] = 1"
    by (simp add: trueCount_def)
  from corroboration_threshold [OF m refl c] m c show ?thesis by simp
qed

section \<open>The selection of scripts\<close>

lemma scriptCandidate_priority:
  "scriptCandidate w baseUrl baseHost el = Some c \<Longrightarrow>
     priority c = b2n (\<not> isModule c) + b2n (\<not> sameOrigin c)"
  by (auto simp: scriptCandidate_def Let_def b2n_def split: if_splits option.splits)

lemma scriptCandidates_priority:
  assumes "scriptCandidates w doc baseUrl = Some cands" and "c \<in> set cands"
  shows "priority c = b2n (\<not> isModule c) + b2n (\<not> sameOrigin c)"
proof -
  from assms obtain b el where "scriptCandidate w baseUrl b el = Some c"
    by (auto simp: scriptCandidates_def Let_def List.map_filter_def split: option.splits)
  then show ?thesis
    by (rule scriptCandidate_priority)
qed

text \<open>
  C6, as the code has it. The selected addresses are those of the first twelve
  candidates of the stable sort by priority: at most twelve (all of them when there are
  fewer), in ascending priority, no candidate left out ranks before a selected one,
  candidates of equal priority keep their document order, and the priority of a
  candidate is \<^verbatim>\<open>(isModule ? 0 : 1) + (sameOrigin ? 0 : 1)\<close>. Nothing removes a repeated
  address.
\<close>

theorem pickTopScripts_ranked:
  assumes "scriptCandidates w doc baseUrl = Some cands"
  shows "\<exists>picked rest.
           pickTopScripts w doc baseUrl = Some (map c_url picked)
         \<and> length picked = min MAX_SCRIPT_REQUESTS (length cands)
         \<and> MAX_SCRIPT_REQUESTS = 12
         \<and> sorted (map priority picked)
         \<and> (\<forall>p \<in> set picked. \<forall>r \<in> set rest. priority p \<le> priority r)
         \<and> (\<forall>k. filter (\<lambda>c. priority c = k) (picked @ rest) = filter (\<lambda>c. priority c = k) cands)
         \<and> (\<forall>c \<in> set cands. priority c = b2n (\<not> isModule c) + b2n (\<not> sameOrigin c))"
proof -
  let ?s = "sort_key priority cands"
  let ?picked = "take MAX_SCRIPT_REQUESTS ?s"
  let ?rest = "drop MAX_SCRIPT_REQUESTS ?s"
  have s: "sorted (map priority ?s)"
    by (rule sorted_sort_key)
  have split: "?picked @ ?rest = ?s"
    by simp
  have "sorted (map priority ?picked @ map priority ?rest)"
    using s by (simp flip: map_append)
  then have ord: "\<forall>p \<in> set ?picked. \<forall>r \<in> set ?rest. priority p \<le> priority r"
    and sp: "sorted (map priority ?picked)"
    by (auto simp: sorted_append)
  have "pickTopScripts w doc baseUrl = Some (map c_url ?picked)"
    using assms by (simp add: pickTopScripts_def)
  moreover have "length ?picked = min MAX_SCRIPT_REQUESTS (length cands)"
    by simp
  moreover have "MAX_SCRIPT_REQUESTS = 12"
    by (simp add: MAX_SCRIPT_REQUESTS_def)
  moreover have "\<forall>k. filter (\<lambda>c. priority c = k) (?picked @ ?rest) = filter (\<lambda>c. priority c = k) cands"
    unfolding split by (simp add: sort_key_stable)
  moreover have "\<forall>c \<in> set cands. priority c = b2n (\<not> isModule c) + b2n (\<not> sameOrigin c)"
    using scriptCandidates_priority [OF assms] by blast
  ultimately show ?thesis
    using ord sp by blast
qed

lemma three_cands:
  "scriptCandidates (exampleWorld threeDoc offline offline) threeDoc exampleUrl =
     Some [\<lparr> c_url = ''https://cdn.example.net/x.js'', priority = 2, sameOrigin = False, isModule = False \<rparr>,
           \<lparr> c_url = ''https://example.com/y.js'', priority = 1, sameOrigin = True, isModule = False \<rparr>,
           \<lparr> c_url = ''https://example.com/z.js'', priority = 0, sameOrigin = True, isModule = True \<rparr>]"
  by code_simp

theorem pickTopScripts_ranked_witness:
  "pickTopScripts (exampleWorld threeDoc offline offline) threeDoc exampleUrl =
     Some [''https://example.com/z.js'', ''https://example.com/y.js'', ''https://cdn.example.net/x.js'']
   \<and> scriptCandidates (exampleWorld threeDoc offline offline) threeDoc exampleUrl \<noteq> None"
proof -
  have e: "pickTopScripts (exampleWorld threeDoc offline offline) threeDoc exampleUrl =
     Some [''https://example.com/z.js'', ''https://example.com/y.js'', ''https://cdn.example.net/x.js'']"
    by code_simp
  from pickTopScripts_ranked [OF three_cands] e three_cands show ?thesis
    by simp
qed

text \<open>A page that links \<^verbatim>\<open>/a.js\<close> twice has that address selected twice.\<close>

theorem pickTopScripts_duplicates:
  "pickTopScripts (exampleWorld twiceDoc offline offline) twiceDoc exampleUrl =
     Some [''https://example.com/a.js'', ''https://example.com/a.js'']"
  by code_simp

section \<open>Script fetches never abort the analysis\<close>

named_theorems detectors \<open>the definitions of the detectors that read script bodies\<close>

declare containsReact_def [detectors] containsVue_def [detectors] containsAngular_def [detectors]
  containsNextJs_def [detectors] containsGatsby_def [detectors] containsSvelte_def [detectors]
  containsEmber_def [detectors] containsNuxtJs_def [detectors] containsPolymer_def [detectors]
  containsjQuery_def [detectors] containsBackbone_def [detectors] containsDojo_def [detectors]
  containsMeteor_def [detectors] containsAstro_def [detectors] containsRemix_def [detectors]
  containsMaterialUI_def [detectors] containsSemanticUI_def [detectors]
  containsMaterializeCSS_def [detectors] containsGoogleAnalytics_def [detectors]
  containsGoogleTagManager_def [detectors] containsMatomo_def [detectors]
  containsPlausible_def [detectors] containsMixpanel_def [detectors]
  containsAmplitude_def [detectors] containsSegment_def [detectors]

lemma containsInScripts_Some:
  assumes "pickTopScripts w doc baseUrl = Some urls"
  shows "containsInScripts w doc baseUrl matcher =
           Some (\<exists>u \<in> set urls. \<exists>text. fetchText w u = Some text \<and> text \<noteq> [] \<and> matcher text)"
  using assms
  by (auto simp: containsInScripts_def list_ex_iff scriptHit_def split: option.splits)

lemma pickTopScripts_total:
  "newURL w b None = Some u \<Longrightarrow> \<exists>urls. pickTopScripts w doc b = Some urls"
  by (simp add: pickTopScripts_def scriptCandidates_def Let_def)

lemma stages_total:
  assumes "pickTopScripts w doc b = Some urls"
  shows "detectJs w doc b \<noteq> None"
    and "detectCss w doc b t \<noteq> None"
    and "detectAnalytics w doc b t \<noteq> None"
    and "detectBuildTools w doc html b t \<noteq> None"
  by (simp_all add: detectJs_def jsDetections_def detectCss_def detectAnalytics_def
        detectBuildTools_def detectors containsInScripts_Some [OF assms] Let_def)

lemma detectTechStack_total:
  assumes "newURL w baseUrl None = Some u"
  shows "detectTechStack w html headers baseUrl \<noteq> None"
proof -
  from pickTopScripts_total [OF assms] obtain urls
    where p: "pickTopScripts w (cheerio_load w html) baseUrl = Some urls"
    by blast
  let ?doc = "cheerio_load w html"
  let ?c = "detectCms w ?doc baseUrl emptyTech"
  note tot = stages_total [OF p]
  from tot(1) obtain js where js: "detectJs w ?doc baseUrl = Some js"
    by auto
  from tot(2) obtain t1 where
    c: "detectCss w ?doc baseUrl (if js \<noteq> [] then set_javascriptFrameworks js ?c else ?c) = Some t1"
    by auto
  from tot(3) obtain t2 where a: "detectAnalytics w ?doc baseUrl t1 = Some t2"
    by auto
  from tot(4) obtain t3 where
    bt: "detectBuildTools w ?doc html baseUrl
           (detectPayments ?doc (detectMonitoring ?doc (detectMarketing ?doc t2))) = Some t3"
    by auto
  show ?thesis
    by (simp add: detectTechStack_def js c a bt Let_def case_prod_beta)
qed

text \<open>
  C8. \<^verbatim>\<open>fetchText\<close> returns \<^verbatim>\<open>null\<close> exactly when the transport fails (network error,
  timeout, oversize body) or the status is outside 200..299, and the body text
  otherwise; it has no other outcome. \<^verbatim>\<open>containsInScripts\<close> counts a failed or empty
  script as "pattern absent" and returns a boolean whenever the script selection
  returns; and with a base address the URL parser accepts, neither it nor the whole
  analysis is aborted, whatever the outcomes of the fetches.
\<close>

theorem script_fetch_failures_absorbed:
  "(fetchText w u = None \<longleftrightarrow>
      (\<exists>f. transport w u = Failed f)
      \<or> (\<exists>r. transport w u = Responded r \<and> \<not> (200 \<le> status r \<and> status r < 300)))
   \<and> (\<forall>r. transport w u = Responded r \<and> 200 \<le> status r \<and> status r < 300 \<longrightarrow>
          fetchText w u = Some (case resp_data r of JStr s \<Rightarrow> s | d \<Rightarrow> JSON_stringify w d))
   \<and> (\<forall>urls. pickTopScripts w doc baseUrl = Some urls \<longrightarrow>
          containsInScripts w doc baseUrl matcher =
            Some (\<exists>url \<in> set urls. \<exists>text. fetchText w url = Some text \<and> text \<noteq> [] \<and> matcher text))
   \<and> (newURL w baseUrl None \<noteq> None \<longrightarrow>
          containsInScripts w doc baseUrl matcher \<noteq> None
          \<and> detectTechStack w html headers baseUrl \<noteq> None)"
proof -
  have a: "fetchText w u = None \<longleftrightarrow>
      (\<exists>f. transport w u = Failed f)
      \<or> (\<exists>r. transport w u = Responded r \<and> \<not> (200 \<le> status r \<and> status r < 300))"
    by (cases "transport w u") (auto simp: fetchText_def http_get_def split: json.splits)
  have b: "\<forall>r. transport w u = Responded r \<and> 200 \<le> status r \<and> status r < 300 \<longrightarrow>
          fetchText w u = Some (case resp_data r of JStr s \<Rightarrow> s | d \<Rightarrow> JSON_stringify w d)"
    by (auto simp: fetchText_def http_get_def split: json.splits)
  have c: "\<forall>urls. pickTopScripts w doc baseUrl = Some urls \<longrightarrow>
          containsInScripts w doc baseUrl matcher =
            Some (\<exists>url \<in> set urls. \<exists>text. fetchText w url = Some text \<and> text \<noteq> [] \<and> matcher text)"
    by (simp add: containsInScripts_Some)
  have d: "newURL w baseUrl None \<noteq> None \<longrightarrow>
          containsInScripts w doc baseUrl matcher \<noteq> None
          \<and> detectTechStack w html headers baseUrl \<noteq> None"
  proof
    assume "newURL w baseUrl None \<noteq> None"
    then obtain b where n: "newURL w baseUrl None = Some b"
      by auto
    from pickTopScripts_total [OF n] obtain urls where "pickTopScripts w doc baseUrl = Some urls"
      by blast
    then have "containsInScripts w doc baseUrl matcher \<noteq> None"
      by (simp add: containsInScripts_Some)
    with detectTechStack_total [OF n]
    show "containsInScripts w doc baseUrl matcher \<noteq> None
          \<and> detectTechStack w html headers baseUrl \<noteq> None"
      by simp
  qed
  from a b c d show ?thesis
    by blast
qed

lemma jquery_offline:
  "transport (exampleWorld jqueryDoc offline offline) ''https://example.com/jquery.min.js''
     = Failed NetworkError
   \<and> pickTopScripts (exampleWorld jqueryDoc offline offline) jqueryDoc exampleUrl
       = Some [''https://example.com/jquery.min.js'']
   \<and> newURL (exampleWorld jqueryDoc offline offline) exampleUrl None \<noteq> None"
  by code_simp

theorem script_fetch_failures_absorbed_witness:
  "fetchText (exampleWorld jqueryDoc offline offline) ''https://example.com/jquery.min.js'' = None
   \<and> containsInScripts (exampleWorld jqueryDoc offline offline) jqueryDoc exampleUrl
        (test (lit ''jQuery'')) = Some False
   \<and> detectTechStack (exampleWorld jqueryDoc offline offline) (root_html jqueryDoc) [] exampleUrl \<noteq> None"
  using jquery_offline
    script_fetch_failures_absorbed [of "exampleWorld jqueryDoc offline offline"
      "''https://example.com/jquery.min.js''" jqueryDoc exampleUrl "test (lit ''jQuery'')"
      "root_html jqueryDoc" "[]"]
  by auto

section \<open>The fields through the stages of the aggregator\<close>

named_theorems setters \<open>the assignments to the fields of the record\<close>

declare set_cms_def [setters] set_isWordPress_def [setters] set_javascriptFrameworks_def [setters]
  set_cssFrameworks_def [setters] set_analytics_def [setters] set_marketing_def [setters]
  set_monitoring_def [setters] set_payments_def [setters] set_buildTools_def [setters]
  set_compression_def [setters] set_server_def [setters] set_webServer_def [setters]
  set_cdn_def [setters] set_hosting_def [setters] assigned_def [setters]

lemma cms_setters [simp]:
  "cms (set_cms v1 t) = Some v1"
  "cms (set_isWordPress v2 t) = cms t"
  "cms (set_javascriptFrameworks v3 t) = cms t"
  "cms (set_cssFrameworks v4 t) = cms t"
  "cms (set_analytics v5 t) = cms t"
  "cms (set_marketing v6 t) = cms t"
  "cms (set_monitoring v7 t) = cms t"
  "cms (set_payments v8 t) = cms t"
  "cms (set_buildTools v9 t) = cms t"
  "cms (set_compression v10 t) = cms t"
  "cms (set_server v11 t) = cms t"
  "cms (set_webServer v12 t) = cms t"
  "cms (set_cdn v13 t) = cms t"
  "cms (set_hosting v14 t) = cms t"
  by (simp_all add: setters)

lemma isWordPressFlag_setters [simp]:
  "isWordPressFlag (set_cms v1 t) = isWordPressFlag t"
  "isWordPressFlag (set_isWordPress v2 t) = Some v2"
  "isWordPressFlag (set_javascriptFrameworks v3 t) = isWordPressFlag t"
  "isWordPressFlag (set_cssFrameworks v4 t) = isWordPressFlag t"
  "isWordPressFlag (set_analytics v5 t) = isWordPressFlag t"
  "isWordPressFlag (set_marketing v6 t) = isWordPressFlag t"
  "isWordPressFlag (set_monitoring v7 t) = isWordPressFlag t"
  "isWordPressFlag (set_payments v8 t) = isWordPressFlag t"
  "isWordPressFlag (set_buildTools v9 t) = isWordPressFlag t"
  "isWordPressFlag (set_compression v10 t) = isWordPressFlag t"
  "isWordPressFlag (set_server v11 t) = isWordPressFlag t"
  "isWordPressFlag (set_webServer v12 t) = isWordPressFlag t"
  "isWordPressFlag (set_cdn v13 t) = isWordPressFlag t"
  "isWordPressFlag (set_hosting v14 t) = isWordPressFlag t"
  by (simp_all add: setters)

lemma cssFrameworks_setters [simp]:
  "cssFrameworks (set_cms v1 t) = cssFrameworks t"
  "cssFrameworks (set_isWordPress v2 t) = cssFrameworks t"
  "cssFrameworks (set_javascriptFrameworks v3 t) = cssFrameworks t"
  "cssFrameworks (set_cssFrameworks v4 t) = Some v4"
  "cssFrameworks (set_analytics v5 t) = cssFrameworks t"
  "cssFrameworks (set_marketing v6 t) = cssFrameworks t"
  "cssFrameworks (set_monitoring v7 t) = cssFrameworks t"
  "cssFrameworks (set_payments v8 t) = cssFrameworks t"
  "cssFrameworks (set_buildTools v9 t) = cssFrameworks t"
  "cssFrameworks (set_compression v10 t) = cssFrameworks t"
  "cssFrameworks (set_server v11 t) = cssFrameworks t"
  "cssFrameworks (set_webServer v12 t) = cssFrameworks t"
  "cssFrameworks (set_cdn v13 t) = cssFrameworks t"
  "cssFrameworks (set_hosting v14 t) = cssFrameworks t"
  by (simp_all add: setters)

lemma javascriptFrameworks_setters [simp]:
  "javascriptFrameworks (set_cms v1 t) = javascriptFrameworks t"
  "javascriptFrameworks (set_isWordPress v2 t) = javascriptFrameworks t"
  "javascriptFrameworks (set_javascriptFrameworks v3 t) = Some v3"
  "javascriptFrameworks (set_cssFrameworks v4 t) = javascriptFrameworks t"
  "javascriptFrameworks (set_analytics v5 t) = javascriptFrameworks t"
  "javascriptFrameworks (set_marketing v6 t) = javascriptFrameworks t"
  "javascriptFrameworks (set_monitoring v7 t) = javascriptFrameworks t"
  "javascriptFrameworks (set_payments v8 t) = javascriptFrameworks t"
  "javascriptFrameworks (set_buildTools v9 t) = javascriptFrameworks t"
  "javascriptFrameworks (set_compression v10 t) = javascriptFrameworks t"
  "javascriptFrameworks (set_server v11 t) = javascriptFrameworks t"
  "javascriptFrameworks (set_webServer v12 t) = javascriptFrameworks t"
  "javascriptFrameworks (set_cdn v13 t) = javascriptFrameworks t"
  "javascriptFrameworks (set_hosting v14 t) = javascriptFrameworks t"
  by (simp_all add: setters)

lemma server_setters [simp]:
  "server (set_cms v1 t) = server t"
  "server (set_isWordPress v2 t) = server t"
  "server (set_javascriptFrameworks v3 t) = server t"
  "server (set_cssFrameworks v4 t) = server t"
  "server (set_analytics v5 t) = server t"
  "server (set_marketing v6 t) = server t"
  "server (set_monitoring v7 t) = server t"
  "server (set_payments v8 t) = server t"
  "server (set_buildTools v9 t) = server t"
  "server (set_compression v10 t) = server t"
  "server (set_server v11 t) = Some v11"
  "server (set_webServer v12 t) = server t"
  "server (set_cdn v13 t) = server t"
  "server (set_hosting v14 t) = server t"
  by (simp_all add: setters)

lemma cdn_setters [simp]:
  "cdn (set_cms v1 t) = cdn t"
  "cdn (set_isWordPress v2 t) = cdn t"
  "cdn (set_javascriptFrameworks v3 t) = cdn t"
  "cdn (set_cssFrameworks v4 t) = cdn t"
  "cdn (set_analytics v5 t) = cdn t"
  "cdn (set_marketing v6 t) = cdn t"
  "cdn (set_monitoring v7 t) = cdn t"
  "cdn (set_payments v8 t) = cdn t"
  "cdn (set_buildTools v9 t) = cdn t"
  "cdn (set_compression v10 t) = cdn t"
  "cdn (set_server v11 t) = cdn t"
  "cdn (set_webServer v12 t) = cdn t"
  "cdn (set_cdn v13 t) = Some v13"
  "cdn (set_hosting v14 t) = cdn t"
  by (simp_all add: setters)

lemma cms_stages [simp]:
  "cms (detectMarketing doc t) = cms t"
  "cms (detectMonitoring doc t) = cms t"
  "cms (detectPayments doc t) = cms t"
  "cms (detectCompression headers t) = cms t"
  "cms (detectServer headers t) = cms t"
  "cms (snd (detectPoweredBy headers js t)) = cms t"
  by (simp_all add: detectMarketing_def detectMonitoring_def detectPayments_def
        detectCompression_def detectServer_def detectPoweredBy_def Let_def if_distrib [of cms])

lemma isWordPressFlag_stages [simp]:
  "isWordPressFlag (detectMarketing doc t) = isWordPressFlag t"
  "isWordPressFlag (detectMonitoring doc t) = isWordPressFlag t"
  "isWordPressFlag (detectPayments doc t) = isWordPressFlag t"
  "isWordPressFlag (detectCompression headers t) = isWordPressFlag t"
  "isWordPressFlag (detectServer headers t) = isWordPressFlag t"
  "isWordPressFlag (snd (detectPoweredBy headers js t)) = isWordPressFlag t"
  by (simp_all add: detectMarketing_def detectMonitoring_def detectPayments_def
        detectCompression_def detectServer_def detectPoweredBy_def Let_def if_distrib [of isWordPressFlag])

lemma cssFrameworks_stages [simp]:
  "cssFrameworks (detectMarketing doc t) = cssFrameworks t"
  "cssFrameworks (detectMonitoring doc t) = cssFrameworks t"
  "cssFrameworks (detectPayments doc t) = cssFrameworks t"
  "cssFrameworks (detectCompression headers t) = cssFrameworks t"
  "cssFrameworks (detectServer headers t) = cssFrameworks t"
  "cssFrameworks (snd (detectPoweredBy headers js t)) = cssFrameworks t"
  by (simp_all add: detectMarketing_def detectMonitoring_def detectPayments_def
        detectCompression_def detectServer_def detectPoweredBy_def Let_def if_distrib [of cssFrameworks])

lemma javascriptFrameworks_stages [simp]:
  "javascriptFrameworks (detectMarketing doc t) = javascriptFrameworks t"
  "javascriptFrameworks (detectMonitoring doc t) = javascriptFrameworks t"
  "javascriptFrameworks (detectPayments doc t) = javascriptFrameworks t"
  "javascriptFrameworks (detectCompression headers t) = javascriptFrameworks t"
  "javascriptFrameworks (detectServer headers t) = javascriptFrameworks t"
  "javascriptFrameworks (snd (detectPoweredBy headers js t)) = javascriptFrameworks t"
  by (simp_all add: detectMarketing_def detectMonitoring_def detectPayments_def
        detectCompression_def detectServer_def detectPoweredBy_def Let_def if_distrib [of javascriptFrameworks])

lemma server_stages [simp]:
  "server (detectMarketing doc t) = server t"
  "server (detectMonitoring doc t) = server t"
  "server (detectPayments doc t) = server t"
  "server (detectCompression headers t) = server t"
  "server (snd (detectPoweredBy headers js t)) = server t"
  by (simp_all add: detectMarketing_def detectMonitoring_def detectPayments_def
        detectCompression_def detectServer_def detectPoweredBy_def Let_def if_distrib [of server])

lemma cdn_stages [simp]:
  "cdn (detectMarketing doc t) = cdn t"
  "cdn (detectMonitoring doc t) = cdn t"
  "cdn (detectPayments doc t) = cdn t"
  "cdn (detectCompression headers t) = cdn t"
  "cdn (detectServer headers t) = cdn t"
  "cdn (snd (detectPoweredBy headers js t)) = cdn t"
  by (simp_all add: detectMarketing_def detectMonitoring_def detectPayments_def
        detectCompression_def detectServer_def detectPoweredBy_def Let_def if_distrib [of cdn])

lemma cms_awaited:
  "detectCss w doc b t = Some t' \<Longrightarrow> cms t' = cms t"
  "detectAnalytics w doc b t = Some t' \<Longrightarrow> cms t' = cms t"
  "detectBuildTools w doc html b t = Some t' \<Longrightarrow> cms t' = cms t"
  by (auto simp: detectCss_def detectAnalytics_def detectBuildTools_def Let_def
           split: Option.bind_splits if_splits)

lemma isWordPressFlag_awaited:
  "detectCss w doc b t = Some t' \<Longrightarrow> isWordPressFlag t' = isWordPressFlag t"
  "detectAnalytics w doc b t = Some t' \<Longrightarrow> isWordPressFlag t' = isWordPressFlag t"
  "detectBuildTools w doc html b t = Some t' \<Longrightarrow> isWordPressFlag t' = isWordPressFlag t"
  by (auto simp: detectCss_def detectAnalytics_def detectBuildTools_def Let_def
           split: Option.bind_splits if_splits)

lemma cssFrameworks_awaited:
  "detectAnalytics w doc b t = Some t' \<Longrightarrow> cssFrameworks t' = cssFrameworks t"
  "detectBuildTools w doc html b t = Some t' \<Longrightarrow> cssFrameworks t' = cssFrameworks t"
  by (auto simp: detectCss_def detectAnalytics_def detectBuildTools_def Let_def
           split: Option.bind_splits if_splits)

lemma javascriptFrameworks_awaited:
  "detectCss w doc b t = Some t' \<Longrightarrow> javascriptFrameworks t' = javascriptFrameworks t"
  "detectAnalytics w doc b t = Some t' \<Longrightarrow> javascriptFrameworks t' = javascriptFrameworks t"
  "detectBuildTools w doc html b t = Some t' \<Longrightarrow> javascriptFrameworks t' = javascriptFrameworks t"
  by (auto simp: detectCss_def detectAnalytics_def detectBuildTools_def Let_def
           split: Option.bind_splits if_splits)

lemma server_awaited:
  "detectCss w doc b t = Some t' \<Longrightarrow> server t' = server t"
  "detectAnalytics w doc b t = Some t' \<Longrightarrow> server t' = server t"
  "detectBuildTools w doc html b t = Some t' \<Longrightarrow> server t' = server t"
  by (auto simp: detectCss_def detectAnalytics_def detectBuildTools_def Let_def
           split: Option.bind_splits if_splits)

lemma cdn_awaited:
  "detectCss w doc b t = Some t' \<Longrightarrow> cdn t' = cdn t"
  "detectAnalytics w doc b t = Some t' \<Longrightarrow> cdn t' = cdn t"
  "detectBuildTools w doc html b t = Some t' \<Longrightarrow> cdn t' = cdn t"
  by (auto simp: detectCss_def detectAnalytics_def detectBuildTools_def Let_def
           split: Option.bind_splits if_splits)

lemma cms_dedupe [simp]: "cms (dedupeEdgeVsOrigin t) = cms t"
  by (simp add: dedupeEdgeVsOrigin_def ensureCdn_def clearServer_def assigned_def Let_def)

lemma isWordPressFlag_dedupe [simp]: "isWordPressFlag (dedupeEdgeVsOrigin t) = isWordPressFlag t"
  by (simp add: dedupeEdgeVsOrigin_def ensureCdn_def clearServer_def assigned_def Let_def)

lemma cssFrameworks_dedupe [simp]: "cssFrameworks (dedupeEdgeVsOrigin t) = cssFrameworks t"
  by (simp add: dedupeEdgeVsOrigin_def ensureCdn_def clearServer_def assigned_def Let_def)

lemma javascriptFrameworks_dedupe [simp]: "javascriptFrameworks (dedupeEdgeVsOrigin t) = javascriptFrameworks t"
  by (simp add: dedupeEdgeVsOrigin_def ensureCdn_def clearServer_def assigned_def Let_def)

lemma detectTechStack_SomeE:
  assumes "detectTechStack w html headers b = Some tech"
  obtains jsSet t1 t2 t3 where
    "detectJs w (cheerio_load w html) b = Some jsSet"
    "detectCss w (cheerio_load w html) b
       (if jsSet \<noteq> [] then set_javascriptFrameworks jsSet (detectCms w (cheerio_load w html) b emptyTech)
        else detectCms w (cheerio_load w html) b emptyTech) = Some t1"
    "detectAnalytics w (cheerio_load w html) b t1 = Some t2"
    "detectBuildTools w (cheerio_load w html) html b
       (detectPayments (cheerio_load w html) (detectMonitoring (cheerio_load w html)
          (detectMarketing (cheerio_load w html) t2))) = Some t3"
    "tech = dedupeEdgeVsOrigin
       (let pb = detectPoweredBy headers jsSet (detectServer headers (detectCompression headers t3));
            t5 = (if fst pb \<noteq> [] then set_javascriptFrameworks (fst pb) (snd pb) else snd pb);
            t6 = (if inferCDN headers \<noteq> [] then set_cdn (inferCDN headers) t5 else t5)
        in if truthy (inferHosting headers) then set_hosting (orEmpty (inferHosting headers)) t6 else t6)"
  using assms
  by (auto simp: detectTechStack_def Let_def case_prod_beta split: Option.bind_splits)

lemma detectTechStack_cms:
  assumes "detectTechStack w html headers b = Some tech"
  shows "cms tech = cms (detectCms w (cheerio_load w html) b emptyTech)"
    and "isWordPressFlag tech = isWordPressFlag (detectCms w (cheerio_load w html) b emptyTech)"
proof -
  from assms obtain jsSet t1 t2 t3 where
    css: "detectCss w (cheerio_load w html) b
       (if jsSet \<noteq> [] then set_javascriptFrameworks jsSet (detectCms w (cheerio_load w html) b emptyTech)
        else detectCms w (cheerio_load w html) b emptyTech) = Some t1"
    and an: "detectAnalytics w (cheerio_load w html) b t1 = Some t2"
    and bt: "detectBuildTools w (cheerio_load w html) html b
       (detectPayments (cheerio_load w html) (detectMonitoring (cheerio_load w html)
          (detectMarketing (cheerio_load w html) t2))) = Some t3"
    and fin: "tech = dedupeEdgeVsOrigin
       (let pb = detectPoweredBy headers jsSet (detectServer headers (detectCompression headers t3));
            t5 = (if fst pb \<noteq> [] then set_javascriptFrameworks (fst pb) (snd pb) else snd pb);
            t6 = (if inferCDN headers \<noteq> [] then set_cdn (inferCDN headers) t5 else t5)
        in if truthy (inferHosting headers) then set_hosting (orEmpty (inferHosting headers)) t6 else t6)"
    by (rule detectTechStack_SomeE)
  have c3: "cms t3 = cms (detectCms w (cheerio_load w html) b emptyTech)"
    using cms_awaited(1) [OF css] cms_awaited(2) [OF an] cms_awaited(3) [OF bt]
    by (simp add: if_distrib [of cms])
  have f3: "isWordPressFlag t3 = isWordPressFlag (detectCms w (cheerio_load w html) b emptyTech)"
    using isWordPressFlag_awaited(1) [OF css] isWordPressFlag_awaited(2) [OF an]
      isWordPressFlag_awaited(3) [OF bt]
    by (simp add: if_distrib [of isWordPressFlag])
  show "cms tech = cms (detectCms w (cheerio_load w html) b emptyTech)"
    unfolding fin using c3 by (simp add: Let_def if_distrib [of cms])
  show "isWordPressFlag tech = isWordPressFlag (detectCms w (cheerio_load w html) b emptyTech)"
    unfolding fin using f3 by (simp add: Let_def if_distrib [of isWordPressFlag])
qed

section \<open>The CMS chain\<close>

lemma detectCms_chain:
  "cms (detectCms w doc b emptyTech) =
     (case firstMatch (cmsChain w doc b) of Some name \<Rightarrow> Some name | None \<Rightarrow> generatorFallback doc)"
  by (auto simp: detectCms_def cmsChain_def firstMatch_def generatorFallback_def emptyTech_def
        Let_def truthy_def orEmpty_def setters split: option.splits)

lemma detectCms_flag:
  "isWordPressFlag (detectCms w doc b emptyTech) =
     (if firstMatch (cmsChain w doc b) = Some ''WordPress'' then Some True else None)"
  by (auto simp: detectCms_def cmsChain_def firstMatch_def emptyTech_def Let_def setters)

lemma detectCms_record:
  "detectCms w doc b emptyTech = cmsRecord (firstMatch (cmsChain w doc b)) (generatorFallback doc)"
  by (auto simp: detectCms_def cmsChain_def firstMatch_def generatorFallback_def cmsRecord_def
        Let_def truthy_def orEmpty_def split: option.splits)






text \<open>
  C10, as the code has it. The flag \<^verbatim>\<open>isWordPress\<close> is never \<^verbatim>\<open>false\<close>; when it is
  \<^verbatim>\<open>true\<close> the \<^verbatim>\<open>cms\<close> field is \<^verbatim>\<open>WordPress\<close>; and it is \<^verbatim>\<open>true\<close> exactly when the chain
  stops at its WordPress entry. (The generator fallback can report the name
  \<^verbatim>\<open>WordPress\<close> without the flag.)
\<close>

theorem isWordPress_flag:
  assumes "detectTechStack w html headers baseUrl = Some tech"
  shows "isWordPressFlag tech \<noteq> Some False
         \<and> (isWordPressFlag tech = Some True \<longrightarrow> cms tech = Some ''WordPress'')
         \<and> (isWordPressFlag tech = Some True \<longleftrightarrow>
              firstMatch (cmsChain w (cheerio_load w html) baseUrl) = Some ''WordPress'')"
  using detectTechStack_cms [OF assms]
  by (simp add: detectCms_chain detectCms_flag)

lemma wpAlpine_eval:
  "detectTechStack (exampleWorld wpAlpineDoc offline offline) (root_html wpAlpineDoc) [] exampleUrl =
     Some (emptyTech \<lparr> cms := Some ''WordPress'', javascriptFrameworks := Some [''Alpine.js''],
             isWordPressFlag := Some True,
             fieldOrder := [''cms'', ''isWordPress'', ''javascriptFrameworks''] \<rparr>)"
  by code_simp

lemma wpAlpine_premises:
  "\<not> isShopify wpAlpineDoc \<and> \<not> isSquarespace wpAlpineDoc \<and> \<not> isWix wpAlpineDoc
   \<and> isWordPress wpAlpineDoc"
  by code_simp

theorem isWordPress_flag_witness:
  "map_option (\<lambda>t. (isWordPressFlag t, cms t))
     (detectTechStack (exampleWorld wpAlpineDoc offline offline) (root_html wpAlpineDoc) [] exampleUrl)
   = Some (Some True, Some ''WordPress'')"
  using isWordPress_flag [OF wpAlpine_eval] wpAlpine_eval
  by simp

text \<open>
  A page whose only WordPress marker is \<^verbatim>\<open><meta name="generator" content="WordPress">\<close>:
  one signal is not enough for the detector, the probe fails, and the fallback reports
  \<^verbatim>\<open>cms = "WordPress"\<close> with the flag absent.
\<close>

theorem generator_without_flag:
  "map_option (\<lambda>t. (cms t, isWordPressFlag t))
     (detectTechStack (exampleWorld generatorDoc offline offline)
        (root_html generatorDoc) [] exampleUrl)
   = Some (Some ''WordPress'', None)"
  by code_simp

section \<open>WordPress and the framework detectors\<close>

lemma detectCms_others:
  "cssFrameworks (detectCms w doc b emptyTech) = None"
  "javascriptFrameworks (detectCms w doc b emptyTech) = None"
  "server (detectCms w doc b emptyTech) = None"
  "cdn (detectCms w doc b emptyTech) = None"
  by (simp_all add: detectCms_def emptyTech_def Let_def)

lemma detectCss_suppressed:
  "isWordPressFlag t = Some True \<Longrightarrow> detectCss w doc b t = Some t"
  by (simp add: detectCss_def)

lemma poweredBy_fst:
  "fst (detectPoweredBy headers js t) = fst (detectPoweredBy headers js emptyTech)"
  by (simp add: detectPoweredBy_def Let_def)

lemma poweredBy_grows: "fst (detectPoweredBy headers js t) = [] \<Longrightarrow> js = []"
  by (auto simp: detectPoweredBy_def Let_def addIf_def setAdd_def split: if_splits)

text \<open>
  C1, as the code has it. When the chain reaches its WordPress entry (the Shopify,
  Squarespace and Wix detectors are false) and the WordPress detector is true, by markup
  or by probe, the record has \<^verbatim>\<open>isWordPress = true\<close> and \<^verbatim>\<open>cssFrameworks\<close> absent,
  whatever the CSS detectors would report.
\<close>

theorem wordpress_suppression:
  assumes run: "detectTechStack w html headers baseUrl = Some tech"
    and first: "\<not> isShopify (cheerio_load w html)" "\<not> isSquarespace (cheerio_load w html)"
      "\<not> isWix (cheerio_load w html)"
    and wp: "isWordPress (cheerio_load w html) \<or> isWordPressViaAPI w baseUrl"
  shows "isWordPressFlag tech = Some True \<and> cssFrameworks tech = None"
proof -
  let ?doc = "cheerio_load w html"
  let ?c = "detectCms w ?doc baseUrl emptyTech"
  from run obtain jsSet t1 t2 t3 where
    css: "detectCss w ?doc baseUrl
       (if jsSet \<noteq> [] then set_javascriptFrameworks jsSet ?c else ?c) = Some t1"
    and an: "detectAnalytics w ?doc baseUrl t1 = Some t2"
    and bt: "detectBuildTools w ?doc html baseUrl
       (detectPayments ?doc (detectMonitoring ?doc (detectMarketing ?doc t2))) = Some t3"
    and fin: "tech = dedupeEdgeVsOrigin
       (let pb = detectPoweredBy headers jsSet (detectServer headers (detectCompression headers t3));
            t5 = (if fst pb \<noteq> [] then set_javascriptFrameworks (fst pb) (snd pb) else snd pb);
            t6 = (if inferCDN headers \<noteq> [] then set_cdn (inferCDN headers) t5 else t5)
        in if truthy (inferHosting headers) then set_hosting (orEmpty (inferHosting headers)) t6 else t6)"
    by (rule detectTechStack_SomeE)
  have flagc: "isWordPressFlag ?c = Some True"
    using first wp by (simp add: detectCms_flag cmsChain_def firstMatch_def)
  have flag: "isWordPressFlag tech = Some True"
    using detectTechStack_cms(2) [OF run] flagc by simp
  have t1: "t1 = (if jsSet \<noteq> [] then set_javascriptFrameworks jsSet ?c else ?c)"
    using css flagc by (simp add: detectCss_suppressed split: if_splits)
  have css3: "cssFrameworks t3 = None"
    using cssFrameworks_awaited(1) [OF an] cssFrameworks_awaited(2) [OF bt] t1
    by (simp add: detectCms_others)
  have cssT: "cssFrameworks tech = None"
    unfolding fin using css3 by (simp add: Let_def if_distrib [of cssFrameworks])
  from flag cssT show ?thesis
    by blast
qed

text \<open>
  A WordPress page that links a Bootstrap style sheet: the Bootstrap detector is true,
  and the record has the flag and no \<^verbatim>\<open>cssFrameworks\<close>.
\<close>

lemma wpBootstrap_eval:
  "detectTechStack (exampleWorld wpBootstrapDoc offline offline) (root_html wpBootstrapDoc) []
     exampleUrl =
     Some (emptyTech \<lparr> cms := Some ''WordPress'', isWordPressFlag := Some True,
             fieldOrder := [''cms'', ''isWordPress''] \<rparr>)"
  by code_simp

lemma wpBootstrap_premises:
  "\<not> isShopify wpBootstrapDoc \<and> \<not> isSquarespace wpBootstrapDoc \<and> \<not> isWix wpBootstrapDoc
   \<and> isWordPress wpBootstrapDoc \<and> containsBootstrap wpBootstrapDoc"
  by code_simp

theorem wordpress_suppression_witness:
  "isWordPress wpBootstrapDoc \<and> containsBootstrap wpBootstrapDoc
   \<and> map_option (\<lambda>t. (isWordPressFlag t, cssFrameworks t))
        (detectTechStack (exampleWorld wpBootstrapDoc offline offline) (root_html wpBootstrapDoc) []
           exampleUrl)
      = Some (Some True, None)"
proof -
  have l: "cheerio_load (exampleWorld wpBootstrapDoc offline offline) (root_html wpBootstrapDoc)
             = wpBootstrapDoc"
    by (simp add: exampleWorld_def)
  from wpBootstrap_premises
  have "isWordPressFlag (emptyTech \<lparr> cms := Some ''WordPress'', isWordPressFlag := Some True,
             fieldOrder := [''cms'', ''isWordPress''] \<rparr>) = Some True
        \<and> cssFrameworks (emptyTech \<lparr> cms := Some ''WordPress'', isWordPressFlag := Some True,
             fieldOrder := [''cms'', ''isWordPress''] \<rparr>) = None"
    using wordpress_suppression [OF wpBootstrap_eval] by (simp add: l)
  with wpBootstrap_premises wpBootstrap_eval show ?thesis
    by simp
qed

text \<open>
  A page with two Shopify markers, two WordPress markers and the same style sheet: the
  WordPress detector is true, but the chain stops at Shopify, so the record has no
  \<^verbatim>\<open>isWordPress\<close> and lists \<^verbatim>\<open>Bootstrap\<close> under \<^verbatim>\<open>cssFrameworks\<close>.
\<close>

theorem wordpress_detector_without_flag:
  "isWordPress shopBootstrapDoc
   \<and> map_option (\<lambda>t. (cms t, isWordPressFlag t, cssFrameworks t))
        (detectTechStack (exampleWorld shopBootstrapDoc offline offline)
           (root_html shopBootstrapDoc) [] exampleUrl)
      = Some (Some ''Shopify'', None, Some [''Bootstrap''])"
  by code_simp

text \<open>
  The block of the JavaScript frameworks carries no guard \<^verbatim>\<open>!tech.isWordPress\<close>, unlike
  the block of the CSS frameworks that follows it, and unlike the notice of the display
  component (\<^verbatim>\<open>front-end framework detections are skipped\<close>): on a WordPress page with an
  Alpine attribute the record has the flag and lists \<^verbatim>\<open>Alpine.js\<close> under
  \<^verbatim>\<open>javascriptFrameworks\<close>.
\<close>

lemma wordpress_page_lists_alpine:
  "isWordPress wpAlpineDoc
   \<and> map_option (\<lambda>t. (isWordPressFlag t, javascriptFrameworks t))
        (detectTechStack (exampleWorld wpAlpineDoc offline offline) (root_html wpAlpineDoc) [] exampleUrl)
      = Some (Some True, Some [''Alpine.js''])"
  using wpAlpine_premises wpAlpine_eval by simp

section \<open>Edge and origin\<close>

lemma update_absent: "k \<notin> fst ` set acc \<Longrightarrow> AList.update k v acc = acc @ [(k, v)]"
  by (induction acc) auto

lemma fold_update_append:
  "distinct (map fst (acc @ xs)) \<Longrightarrow> list_all (\<lambda>k. toLowerCase k = k) (map fst xs) \<Longrightarrow>
     fold (\<lambda>(k, v) h. AList.update (toLowerCase k) v h) xs acc = acc @ xs"
proof (induction xs arbitrary: acc)
  case Nil
  then show ?case by simp
next
  case (Cons x xs)
  obtain k v where x: "x = (k, v)" by (cases x)
  from Cons.prems x have k: "toLowerCase k = k" "k \<notin> fst ` set acc"
    by auto
  from Cons.prems x have "distinct (map fst ((acc @ [(k, v)]) @ xs))"
    by auto
  moreover from Cons.prems have "list_all (\<lambda>k. toLowerCase k = k) (map fst xs)"
    by simp
  ultimately have "fold (\<lambda>(k, v) h. AList.update (toLowerCase k) v h) xs (acc @ [(k, v)])
      = (acc @ [(k, v)]) @ xs"
    by (rule Cons.IH)
  with k x show ?case
    by (simp add: update_absent)
qed

lemma lowerKeys_id: "lowerCased headers \<Longrightarrow> lowerKeys headers = headers"
  using fold_update_append [of "[]" headers]
  by (simp add: lowerKeys_def lowerCased_def)

text \<open>The headers that the route handler passes to the aggregator are of this form.\<close>

lemma toLowerChar_idem: "toLowerChar (toLowerChar c) = toLowerChar c"
  by (cases c) (auto simp: letterBits_def latinCapitalBits_def)

lemma toLowerCase_idem: "toLowerCase (toLowerCase s) = toLowerCase s"
  by (simp add: toLowerCase_def toLowerChar_idem)

lemma lowerCased_update:
  "lowerCased h \<Longrightarrow> lowerCased (AList.update (toLowerCase k) v h)"
  by (auto simp: lowerCased_def list_all_iff distinct_update dom_update toLowerCase_idem)

lemma lowerCased_fold:
  "lowerCased acc \<Longrightarrow>
     lowerCased (fold (\<lambda>(k, v) h. AList.update (toLowerCase k) (f v) h) hs acc)"
  by (induction hs arbitrary: acc) (auto simp: lowerCased_update)

lemma normalizeHeaders_lowerCased: "lowerCased (normalizeHeaders hs)"
  unfolding normalizeHeaders_def
  using lowerCased_fold [of "[]" "\<lambda>v. case v of HArr xs \<Rightarrow> join '', '' xs | HStr s \<Rightarrow> s" hs]
  by (simp add: lowerCased_def)

lemma not_cloudflare_empty: "\<not> test_i (lit ''cloudflare'') []"
  by code_simp

lemma setAdd_keeps: "x \<in> set out \<Longrightarrow> x \<in> set (if c then setAdd y out else out)"
  by (simp add: setAdd_def)

lemma inferCDN_cloudflare:
  assumes "map_of (lowerKeys headers) ''server'' = Some raw" and "test_i (lit ''cloudflare'') raw"
  shows "''Cloudflare'' \<in> set (inferCDN headers)"
  unfolding inferCDN_def Let_def
  apply (rule setAdd_keeps, rule setAdd_keeps, rule setAdd_keeps, rule setAdd_keeps,
         rule setAdd_keeps)
  using assms by (simp add: orEmpty_def setAdd_def)

lemma firstAlias_cloudflare:
  assumes "test_i (lit ''cloudflare'') raw"
  shows "firstAlias serverHeaderAliases raw =
           Some (if test_i googleFrontendRx raw then ''Google Frontend''
                 else if test_i (lit ''apache'') raw then ''Apache HTTP Server''
                 else if test_i (lit ''nginx'') raw then ''NGINX''
                 else ''Cloudflare'')"
  using assms by (simp add: serverHeaderAliases_def)

lemma detectServer_label:
  assumes "map_of headers ''server'' = Some raw" and "test_i (lit ''cloudflare'') raw"
  shows "server (detectServer headers t) =
           Some (if test_i googleFrontendRx raw then ''Google Frontend''
                 else if test_i (lit ''apache'') raw then ''Apache HTTP Server''
                 else if test_i (lit ''nginx'') raw then ''NGINX''
                 else ''Cloudflare'')"
proof -
  from assms(2) not_cloudflare_empty have "raw \<noteq> []"
    by auto
  with assms show ?thesis
    by (simp add: detectServer_def mapServerHeader_def firstAlias_cloudflare truthy_def
          orEmpty_def Let_def)
qed

lemma lower_labels:
  "toLowerCase ''Google Frontend'' = ''google frontend''"
  "toLowerCase ''Apache HTTP Server'' = ''apache http server''"
  "toLowerCase ''NGINX'' = ''nginx''"
  "toLowerCase ''Cloudflare'' = ''cloudflare''"
  by code_simp+

lemma label_needles:
  "str_includes ''cloudflare'' ''cloudflare''"
  "\<not> str_includes ''google frontend'' ''cloudflare''"
  "\<not> str_includes ''google frontend'' ''fastly''"
  "\<not> str_includes ''google frontend'' ''akamai''"
  "\<not> str_includes ''google frontend'' ''cloudfront''"
  "str_includes ''google frontend'' ''google frontend''"
  "\<not> str_includes ''apache http server'' ''cloudflare''"
  "\<not> str_includes ''apache http server'' ''fastly''"
  "\<not> str_includes ''apache http server'' ''akamai''"
  "\<not> str_includes ''apache http server'' ''cloudfront''"
  "\<not> str_includes ''apache http server'' ''google frontend''"
  "\<not> str_includes ''apache http server'' ''gws''"
  "\<not> str_includes ''apache http server'' ''esf''"
  "\<not> str_includes ''apache http server'' ''vercel''"
  "\<not> str_includes ''nginx'' ''cloudflare''"
  "\<not> str_includes ''nginx'' ''fastly''"
  "\<not> str_includes ''nginx'' ''akamai''"
  "\<not> str_includes ''nginx'' ''cloudfront''"
  "\<not> str_includes ''nginx'' ''google frontend''"
  "\<not> str_includes ''nginx'' ''gws''"
  "\<not> str_includes ''nginx'' ''esf''"
  "\<not> str_includes ''nginx'' ''vercel''"
  by code_simp+

lemma ensureCdn_keeps:
  "cdn t = Some cs \<Longrightarrow> x \<in> set cs \<Longrightarrow>
     \<exists>cs'. cdn (ensureCdn name t) = Some cs' \<and> x \<in> set cs'"
  by (simp add: ensureCdn_def Let_def assigned_def)

lemma dedupe_labels:
  assumes "server t = Some label" and "cdn t = Some cs" and "''Cloudflare'' \<in> set cs"
    and "label \<in> {''Google Frontend'', ''Apache HTTP Server'', ''NGINX'', ''Cloudflare''}"
  shows "server (dedupeEdgeVsOrigin t) =
           (if label \<in> {''Apache HTTP Server'', ''NGINX''} then Some label else None)
         \<and> (\<exists>cs'. cdn (dedupeEdgeVsOrigin t) = Some cs' \<and> ''Cloudflare'' \<in> set cs')"
proof -
  from assms(4) consider "label = ''Google Frontend''" | "label = ''Apache HTTP Server''"
    | "label = ''NGINX''" | "label = ''Cloudflare''"
    by auto
  then show ?thesis
  proof cases
    case 1
    with assms(1) ensureCdn_keeps [OF assms(2,3), of "''Google Frontend''"] show ?thesis
      by (auto simp: dedupeEdgeVsOrigin_def truthy_def orEmpty_def lower_labels label_needles
            clearServer_def assigned_def Let_def)
  next
    case 2
    with assms(1,2,3) show ?thesis
      by (simp add: dedupeEdgeVsOrigin_def truthy_def orEmpty_def lower_labels label_needles Let_def)
  next
    case 3
    with assms(1,2,3) show ?thesis
      by (simp add: dedupeEdgeVsOrigin_def truthy_def orEmpty_def lower_labels label_needles Let_def)
  next
    case 4
    with assms(1) ensureCdn_keeps [OF assms(2,3), of "''Cloudflare''"] show ?thesis
      by (auto simp: dedupeEdgeVsOrigin_def truthy_def orEmpty_def lower_labels label_needles
            clearServer_def assigned_def Let_def)
  qed
qed

text \<open>
  The CMS block leaves the empty record as it is exactly when no detector of the chain
  is true (the discovery probe included) and the page has no generator tag.
\<close>

lemma noSignature_cms:
  "(detectCms w doc b emptyTech = emptyTech) =
     (firstMatch (cmsChain w doc b) = None \<and> generatorFallback doc = None)"
  unfolding detectCms_record
  by (auto simp: cmsRecord_def setters emptyTech_def split: option.splits)

lemma cloudflare_headers_only:
  "dedupeEdgeVsOrigin
     (let pb = detectPoweredBy [(''server'', ''cloudflare'')] []
                 (detectServer [(''server'', ''cloudflare'')]
                    (detectCompression [(''server'', ''cloudflare'')] emptyTech));
          t5 = (if fst pb \<noteq> [] then set_javascriptFrameworks (fst pb) (snd pb) else snd pb);
          t6 = (if inferCDN [(''server'', ''cloudflare'')] \<noteq> []
                then set_cdn (inferCDN [(''server'', ''cloudflare'')]) t5 else t5)
      in if truthy (inferHosting [(''server'', ''cloudflare'')])
         then set_hosting (orEmpty (inferHosting [(''server'', ''cloudflare'')])) t6 else t6)
   = emptyTech \<lparr> cdn := Some [''Cloudflare''], fieldOrder := [''server'', ''cdn''] \<rparr>"
  by code_simp

lemma noSignature_stages:
  assumes run: "detectTechStack w html headers baseUrl = Some tech"
    and ns: "noSignature w (cheerio_load w html) html baseUrl"
  shows "tech = dedupeEdgeVsOrigin
       (let pb = detectPoweredBy headers [] (detectServer headers (detectCompression headers emptyTech));
            t5 = (if fst pb \<noteq> [] then set_javascriptFrameworks (fst pb) (snd pb) else snd pb);
            t6 = (if inferCDN headers \<noteq> [] then set_cdn (inferCDN headers) t5 else t5)
        in if truthy (inferHosting headers) then set_hosting (orEmpty (inferHosting headers)) t6 else t6)"
proof -
  let ?doc = "cheerio_load w html"
  from ns have n:
    "detectCms w ?doc baseUrl emptyTech = emptyTech"
    "detectJs w ?doc baseUrl = Some []"
    "detectCss w ?doc baseUrl emptyTech = Some emptyTech"
    "detectAnalytics w ?doc baseUrl emptyTech = Some emptyTech"
    "detectMarketing ?doc emptyTech = emptyTech"
    "detectMonitoring ?doc emptyTech = emptyTech"
    "detectPayments ?doc emptyTech = emptyTech"
    "detectBuildTools w ?doc html baseUrl emptyTech = Some emptyTech"
    by (simp_all add: noSignature_def)
  from run obtain jsSet t1 t2 t3 where
    js: "detectJs w ?doc baseUrl = Some jsSet"
    and css: "detectCss w ?doc baseUrl
       (if jsSet \<noteq> [] then set_javascriptFrameworks jsSet (detectCms w ?doc baseUrl emptyTech)
        else detectCms w ?doc baseUrl emptyTech) = Some t1"
    and an: "detectAnalytics w ?doc baseUrl t1 = Some t2"
    and bt: "detectBuildTools w ?doc html baseUrl
       (detectPayments ?doc (detectMonitoring ?doc (detectMarketing ?doc t2))) = Some t3"
    and fin: "tech = dedupeEdgeVsOrigin
       (let pb = detectPoweredBy headers jsSet (detectServer headers (detectCompression headers t3));
            t5 = (if fst pb \<noteq> [] then set_javascriptFrameworks (fst pb) (snd pb) else snd pb);
            t6 = (if inferCDN headers \<noteq> [] then set_cdn (inferCDN headers) t5 else t5)
        in if truthy (inferHosting headers) then set_hosting (orEmpty (inferHosting headers)) t6 else t6)"
    by (rule detectTechStack_SomeE)
  from js n(2) have j: "jsSet = []"
    by simp
  from css j n(1) n(3) have t1: "t1 = emptyTech"
    by simp
  from an t1 n(4) have t2: "t2 = emptyTech"
    by simp
  from bt t2 n(5) n(6) n(7) n(8) have t3: "t3 = emptyTech"
    by simp
  from fin j t3 show ?thesis
    by (simp only:)
qed

text \<open>
  C2, as the code has it. When the lower-cased value of the \<^verbatim>\<open>server\<close> header includes
  \<^verbatim>\<open>cloudflare\<close> (equivalently, matches \<^verbatim>\<open>/cloudflare/i\<close>), the record lists
  \<^verbatim>\<open>Cloudflare\<close> under \<^verbatim>\<open>cdn\<close>. The \<^verbatim>\<open>server\<close> field is absent unless an
  earlier alias of the table names an origin server: a value that also matches
  \<^verbatim>\<open>/apache/i\<close> or \<^verbatim>\<open>/nginx/i\<close> (and not the Google Frontend pattern) is reported as
  \<^verbatim>\<open>Apache HTTP Server\<close> or \<^verbatim>\<open>NGINX\<close>. When the headers are \<^verbatim>\<open>{server: "cloudflare"}\<close> and
  the page matches no signature (no stage that reads the page, the script bodies or the
  discovery probe reports anything), the record is exactly \<^verbatim>\<open>cdn = ["Cloudflare"]\<close>:
  every other field is absent.
\<close>

theorem cloudflare_edge:
  assumes run: "detectTechStack w html headers baseUrl = Some tech"
    and lc: "lowerCased headers"
    and srv: "map_of headers ''server'' = Some raw"
    and inc: "str_includes (toLowerCase raw) ''cloudflare''"
  shows "(\<exists>cs. cdn tech = Some cs \<and> ''Cloudflare'' \<in> set cs)
         \<and> server tech =
             (if test_i googleFrontendRx raw then None
              else if test_i (lit ''apache'') raw then Some ''Apache HTTP Server''
              else if test_i (lit ''nginx'') raw then Some ''NGINX''
              else None)
         \<and> (headers = [(''server'', ''cloudflare'')] \<and> noSignature w (cheerio_load w html) html baseUrl
              \<longrightarrow> tech = emptyTech \<lparr> cdn := Some [''Cloudflare''],
                                     fieldOrder := [''server'', ''cdn''] \<rparr>)"
proof -
  let ?doc = "cheerio_load w html"
  let ?label = "if test_i googleFrontendRx raw then ''Google Frontend''
                 else if test_i (lit ''apache'') raw then ''Apache HTTP Server''
                 else if test_i (lit ''nginx'') raw then ''NGINX''
                 else ''Cloudflare''"
  from inc have cf: "test_i (lit ''cloudflare'') raw"
    by (simp add: test_i_cloudflare)
  from run obtain jsSet t1 t2 t3 where
    fin: "tech = dedupeEdgeVsOrigin
       (let pb = detectPoweredBy headers jsSet (detectServer headers (detectCompression headers t3));
            t5 = (if fst pb \<noteq> [] then set_javascriptFrameworks (fst pb) (snd pb) else snd pb);
            t6 = (if inferCDN headers \<noteq> [] then set_cdn (inferCDN headers) t5 else t5)
        in if truthy (inferHosting headers) then set_hosting (orEmpty (inferHosting headers)) t6 else t6)"
    by (rule detectTechStack_SomeE)
  define t7 where "t7 =
       (let pb = detectPoweredBy headers jsSet (detectServer headers (detectCompression headers t3));
            t5 = (if fst pb \<noteq> [] then set_javascriptFrameworks (fst pb) (snd pb) else snd pb);
            t6 = (if inferCDN headers \<noteq> [] then set_cdn (inferCDN headers) t5 else t5)
        in if truthy (inferHosting headers) then set_hosting (orEmpty (inferHosting headers)) t6 else t6)"
  have cf_in: "''Cloudflare'' \<in> set (inferCDN headers)"
    using srv cf lc by (simp add: inferCDN_cloudflare lowerKeys_id)
  then have ne: "inferCDN headers \<noteq> []"
    by auto
  have s7: "server t7 = Some ?label"
    unfolding t7_def
    by (simp add: Let_def if_distrib [of server] detectServer_label [OF srv cf])
  have c7: "cdn t7 = Some (inferCDN headers)"
    unfolding t7_def using ne
    by (simp add: Let_def if_distrib [of cdn])
  have "?label \<in> {''Google Frontend'', ''Apache HTTP Server'', ''NGINX'', ''Cloudflare''}"
    by simp
  from dedupe_labels [OF s7 c7 cf_in this]
  have general: "(\<exists>cs. cdn tech = Some cs \<and> ''Cloudflare'' \<in> set cs)
         \<and> server tech =
             (if test_i googleFrontendRx raw then None
              else if test_i (lit ''apache'') raw then Some ''Apache HTTP Server''
              else if test_i (lit ''nginx'') raw then Some ''NGINX''
              else None)"
    unfolding fin t7_def [symmetric] by auto
  have scenario: "tech = emptyTech \<lparr> cdn := Some [''Cloudflare''], fieldOrder := [''server'', ''cdn''] \<rparr>"
    if h: "headers = [(''server'', ''cloudflare'')]" and ns: "noSignature w ?doc html baseUrl"
    using noSignature_stages [OF run ns] unfolding h
    by (simp only: cloudflare_headers_only)
  from general scenario show ?thesis
    by blast
qed

lemma cloudflare_eval:
  "detectTechStack (exampleWorld emptyDoc offline offline) (root_html emptyDoc) [(''server'', ''cloudflare'')] exampleUrl
     = Some (emptyTech \<lparr> cdn := Some [''Cloudflare''], fieldOrder := [''server'', ''cdn''] \<rparr>)"
  by code_simp

lemma emptyDoc_noSignature:
  "noSignature (exampleWorld emptyDoc offline offline) emptyDoc (root_html emptyDoc) exampleUrl"
  by code_simp

theorem cloudflare_edge_witness:
  "lowerCased [(''server'', ''cloudflare'')]
   \<and> str_includes (toLowerCase ''cloudflare'') ''cloudflare''
   \<and> noSignature (exampleWorld emptyDoc offline offline) emptyDoc (root_html emptyDoc) exampleUrl
   \<and> detectTechStack (exampleWorld emptyDoc offline offline) (root_html emptyDoc)
         [(''server'', ''cloudflare'')] exampleUrl
       = Some (emptyTech \<lparr> cdn := Some [''Cloudflare''], fieldOrder := [''server'', ''cdn''] \<rparr>)"
proof -
  have a: "lowerCased [(''server'', ''cloudflare'')]"
    by code_simp
  have b: "map_of [(''server'', ''cloudflare'')] ''server'' = Some ''cloudflare''"
    by simp
  have c: "str_includes (toLowerCase ''cloudflare'') ''cloudflare''"
    by code_simp
  have l: "cheerio_load (exampleWorld emptyDoc offline offline) (root_html emptyDoc) = emptyDoc"
    by (simp add: exampleWorld_def)
  from cloudflare_edge [OF cloudflare_eval a b c] a c emptyDoc_noSignature cloudflare_eval
  show ?thesis
    by (simp add: l)
qed

text \<open>
  The header \<^verbatim>\<open>server: cloudflare-nginx\<close> contains \<^verbatim>\<open>cloudflare\<close>; the record keeps
  \<^verbatim>\<open>server = "NGINX"\<close> beside \<^verbatim>\<open>cdn = ["Cloudflare"]\<close>.
\<close>

theorem cloudflare_nginx_keeps_server:
  "str_includes (toLowerCase ''cloudflare-nginx'') ''cloudflare''
   \<and> map_option (\<lambda>t. (server t, cdn t))
        (detectTechStack (exampleWorld emptyDoc offline offline) (root_html emptyDoc)
           [(''server'', ''cloudflare-nginx'')] exampleUrl)
      = Some (Some ''NGINX'', Some [''Cloudflare''])"
  by code_simp

section \<open>What the record depends on\<close>

lemma scriptCandidates_cong:
  assumes n: "newURL w1 = newURL w2"
  shows "scriptCandidates w1 doc b = scriptCandidates w2 doc b"
proof -
  have sc: "scriptCandidate w1 = scriptCandidate w2"
    by (intro ext) (unfold scriptCandidate_def n, rule refl)
  show ?thesis
    by (unfold scriptCandidates_def n sc, rule refl)
qed

lemma containsInScripts_cong:
  assumes "newURL w1 = newURL w2"
    and "case pickTopScripts w1 doc b of None \<Rightarrow> True
         | Some urls \<Rightarrow> list_all (\<lambda>u. fetchText w1 u = fetchText w2 u) urls"
  shows "containsInScripts w1 doc b m = containsInScripts w2 doc b m"
proof -
  have p: "pickTopScripts w1 doc b = pickTopScripts w2 doc b"
    using scriptCandidates_cong [OF assms(1)] by (simp add: pickTopScripts_def)
  show ?thesis
  proof (cases "pickTopScripts w1 doc b")
    case None
    with p show ?thesis by (simp add: containsInScripts_def)
  next
    case (Some urls)
    with assms(2) have hits: "map (scriptHit w1 m) urls = map (scriptHit w2 m) urls"
      by (simp add: list_all_iff scriptHit_def)
    have "containsInScripts w1 doc b m = Some (list_ex (\<lambda>b. b) (map (scriptHit w1 m) urls))"
      using Some by (simp add: containsInScripts_def)
    moreover
    have "containsInScripts w2 doc b m = Some (list_ex (\<lambda>b. b) (map (scriptHit w2 m) urls))"
      using Some p by (simp add: containsInScripts_def)
    ultimately show ?thesis
      by (simp only: hits)
  qed
qed

lemma stages_cong:
  assumes cis: "\<And>m. containsInScripts w1 doc b m = containsInScripts w2 doc b m"
  shows "detectJs w1 doc b = detectJs w2 doc b"
    and "detectCss w1 doc b t = detectCss w2 doc b t"
    and "detectAnalytics w1 doc b t = detectAnalytics w2 doc b t"
    and "detectBuildTools w1 doc html b t = detectBuildTools w2 doc html b t"
  by (simp_all add: detectJs_def jsDetections_def detectCss_def detectAnalytics_def
        detectBuildTools_def detectors cis)

text \<open>
  The aggregator is embedded as a function of the page, the headers, the base address
  and the world, so that two runs on equal arguments give equal records by the meaning
  of equality; the order in which the concurrent fetches of one run complete is not
  part of the embedding. What can be stated is on which parts of the world the record
  depends: the parser output for the page, the URL parser, the body (or the failure) of
  every selected script address, and the verdict of the WordPress discovery probe.
\<close>

lemma record_depends_on:
  assumes ev: "sameEvidence w1 w2 html baseUrl"
    and probe: "isWordPressViaAPI w1 baseUrl = isWordPressViaAPI w2 baseUrl"
  shows "detectTechStack w1 html headers baseUrl = detectTechStack w2 html headers baseUrl"
proof -
  let ?doc = "cheerio_load w1 html"
  from ev have e: "cheerio_load w1 html = cheerio_load w2 html \<and> newURL w1 = newURL w2 \<and>
      (case pickTopScripts w1 ?doc baseUrl of None \<Rightarrow> True
       | Some urls \<Rightarrow> list_all (\<lambda>u. fetchText w1 u = fetchText w2 u) urls)"
    unfolding sameEvidence_def .
  from e have doc: "cheerio_load w2 html = ?doc"
    by simp
  from e have n: "newURL w1 = newURL w2"
    by blast
  from e have f: "case pickTopScripts w1 ?doc baseUrl of None \<Rightarrow> True
            | Some urls \<Rightarrow> list_all (\<lambda>u. fetchText w1 u = fetchText w2 u) urls"
    by blast
  have cis: "\<And>m. containsInScripts w1 ?doc baseUrl m = containsInScripts w2 ?doc baseUrl m"
    by (rule containsInScripts_cong [OF n f])
  have cms: "\<And>t. detectCms w1 ?doc baseUrl t = detectCms w2 ?doc baseUrl t"
    using probe by (simp add: detectCms_def)
  show ?thesis
    unfolding detectTechStack_def doc
    by (simp only: Let_def stages_cong [OF cis] cms)
qed

lemma offline_eval:
  "detectTechStack (exampleWorld emptyDoc offline offline) (root_html emptyDoc) [] exampleUrl = Some emptyTech"
  by code_simp

lemma wpProbe_eval:
  "detectTechStack (exampleWorld emptyDoc offline wpProbe) (root_html emptyDoc) [] exampleUrl =
     Some (emptyTech \<lparr> cms := Some ''WordPress'', isWordPressFlag := Some True,
             fieldOrder := [''cms'', ''isWordPress''] \<rparr>)"
  by code_simp

lemma offline_picks: "pickTopScripts (exampleWorld emptyDoc offline offline) emptyDoc exampleUrl = Some []"
  by code_simp

lemma example_same_evidence:
  "sameEvidence (exampleWorld emptyDoc offline offline) (exampleWorld emptyDoc offline wpProbe)
     (root_html emptyDoc) exampleUrl"
proof -
  have "cheerio_load (exampleWorld emptyDoc offline offline) (root_html emptyDoc) = emptyDoc"
    by (simp add: exampleWorld_def)
  then show ?thesis
    by (simp add: sameEvidence_def offline_picks) (simp add: exampleWorld_def)
qed

text \<open>
  The same page, headers and script bodies, and two answers of the discovery endpoint:
  the records differ.
\<close>

lemma probe_changes_record:
  "sameEvidence (exampleWorld emptyDoc offline offline) (exampleWorld emptyDoc offline wpProbe)
     (root_html emptyDoc) exampleUrl
   \<and> detectTechStack (exampleWorld emptyDoc offline offline) (root_html emptyDoc) [] exampleUrl
       \<noteq> detectTechStack (exampleWorld emptyDoc offline wpProbe) (root_html emptyDoc) [] exampleUrl"
  using example_same_evidence
  by (simp add: offline_eval wpProbe_eval emptyTech_def)

end
